theory Spec2Isabelle
  imports Main "HOL-Library.Word" "HOL-Library.Sublist"
begin

section \<open>Common ground: Solidity values, reverts and checked arithmetic\<close>

text \<open>
  The two contracts (\<^verbatim>\<open>TransparentOrderProtocol\<close> and \<^verbatim>\<open>PriceProtectionOracle\<close>) are
  compiled with Solidity 0.8, whose \<^verbatim>\<open>uint256\<close> arithmetic is checked: an overflow, an
  underflow or a division by zero raises a panic that reverts the call. A \<^verbatim>\<open>uint256\<close> is
  modelled as a natural number together with the checked operations below, so that every
  panic of the source is a branch of the model. A revert is the value \<open>Inl e\<close>; a call that
  returns is \<open>Inr v\<close>. Events are not part of the state and are left out.
\<close>

type_synonym address = "160 word"
type_synonym bytes32 = "256 word"

datatype error =
    Revert string                 \<comment> \<open>\<^verbatim>\<open>require(cond, "message")\<close> with the source's message\<close>
  | Panic                         \<comment> \<open>checked arithmetic: overflow, underflow, division by zero\<close>
  | ReentrancyGuardReentrantCall  \<comment> \<open>the \<^verbatim>\<open>nonReentrant\<close> modifier met an entered guard\<close>
  | TransferFailed                \<comment> \<open>the custody collaborator refused a transfer\<close>
  | ExternalCallFailed            \<comment> \<open>an external call outside any \<^verbatim>\<open>try\<close> reverted\<close>

definition MAX_UINT256 :: nat where
  "MAX_UINT256 = 2 ^ 256 - 1"

definition and_then :: "error + 'a \<Rightarrow> ('a \<Rightarrow> error + 'b) \<Rightarrow> error + 'b" where
  "and_then m f = (case m of Inl e \<Rightarrow> Inl e | Inr x \<Rightarrow> f x)"

definition require :: "bool \<Rightarrow> string \<Rightarrow> error + unit" where
  "require c msg = (if c then Inr () else Inl (Revert msg))"

definition checked_add :: "nat \<Rightarrow> nat \<Rightarrow> error + nat" where
  "checked_add a b = (if a + b \<le> MAX_UINT256 then Inr (a + b) else Inl Panic)"

definition checked_sub :: "nat \<Rightarrow> nat \<Rightarrow> error + nat" where
  "checked_sub a b = (if b \<le> a then Inr (a - b) else Inl Panic)"

definition checked_mul :: "nat \<Rightarrow> nat \<Rightarrow> error + nat" where
  "checked_mul a b = (if a * b \<le> MAX_UINT256 then Inr (a * b) else Inl Panic)"

definition checked_div :: "nat \<Rightarrow> nat \<Rightarrow> error + nat" where
  "checked_div a b = (if b = 0 then Inl Panic else Inr (a div b))"

text \<open>\<^verbatim>\<open>10 ** decimals\<close>: a literal base makes the power a \<^verbatim>\<open>uint256\<close>, checked like the rest.\<close>

definition checked_pow :: "nat \<Rightarrow> nat \<Rightarrow> error + nat" where
  "checked_pow a n = (if a ^ n \<le> MAX_UINT256 then Inr (a ^ n) else Inl Panic)"

section \<open>TransparentOrderProtocol: the order ledger\<close>

subsection \<open>Data\<close>

record PriceProtection =
  pp_enabled :: bool
  tolerance :: nat
  lastPriceCheck :: nat
  lastMarketPrice :: nat

record WrappedToken =
  originalToken :: address
  wrappedAsset :: address      \<comment> \<open>the struct's field \<^verbatim>\<open>wrappedToken\<close>\<close>
  unwrapAfter :: bool
  bridgeFee :: nat

record BalanceCheck =
  bc_enabled :: bool
  lastCheck :: nat
  autoAdjust :: bool
  autoCancel :: bool
  minBalance :: nat

record ExecutionInfo =
  attempts :: nat
  lastAttempt :: nat
  failureReason :: string
  totalFilled :: nat
  isCompleted :: bool

record PublicOrder =
  user :: address
  amount :: nat
  targetPrice :: nat
  gasPrice :: nat
  timestamp :: nat
  expiry :: nat
  queuePosition :: nat
  sourceChain :: nat
  targetChain :: nat
  makerAsset :: address
  takerAsset :: address
  priceProtection :: PriceProtection
  wrappedToken :: WrappedToken
  balanceCheck :: BalanceCheck
  execution :: ExecutionInfo

definition PRICE_PRECISION :: nat where
  "PRICE_PRECISION = 10 ^ 18"

definition GAS_PRIORITY_MULTIPLIER :: nat where
  "GAS_PRIORITY_MULTIPLIER = 100"

text \<open>
  The state of the ledger. A Solidity mapping is total (an absent key reads as the zero
  value), so \<open>orders\<close> is a total function and an order exists when its \<open>user\<close> is not
  the zero address. \<open>entered\<close> is the status word of the inherited reentrancy guard.
  \<open>balances token holder\<close> is the state of the custody collaborator (the ERC-20 tokens):
  it is rolled back by a revert like the contract's own storage.
\<close>

record ledger =
  orders :: "bytes32 \<Rightarrow> PublicOrder"
  userOrders :: "address \<Rightarrow> bytes32 list"
  activeOrderHashes :: "bytes32 list"
  totalOrdersCreated :: nat
  totalOrdersFilled :: nat
  globalTolerancePercent :: nat
  entered :: bool
  balances :: "address \<Rightarrow> address \<Rightarrow> nat"

text \<open>The context of one call: the contract's own address, \<^verbatim>\<open>msg.sender\<close>, \<^verbatim>\<open>block.timestamp\<close>.\<close>

record call_ctx =
  this :: address
  msg_sender :: address
  block_timestamp :: nat

subsection \<open>Queue position\<close>

text \<open>
  \<^verbatim>\<open>calculateQueuePosition\<close> of the contract: every operation is a checked \<^verbatim>\<open>uint256\<close>
  operation, timestamps are seconds.
\<close>

definition calculateQueuePosition :: "nat \<Rightarrow> nat \<Rightarrow> nat \<Rightarrow> nat \<Rightarrow> error + nat" where
  "calculateQueuePosition now gasPrice' timestamp' amount' =
     and_then (checked_mul gasPrice' GAS_PRIORITY_MULTIPLIER) (\<lambda>gasWeight.
     and_then (checked_div amount' 1000) (\<lambda>amountWeight.
     and_then (checked_sub now timestamp') (\<lambda>age.
     and_then (checked_div age 60) (\<lambda>timePenalty.
     and_then (checked_add gasWeight amountWeight) (\<lambda>w.
       checked_sub w timePenalty)))))"

text \<open>
  \<^verbatim>\<open>TransparentOrderDemo.calculateQueuePosition\<close> of the TypeScript demo: \<^verbatim>\<open>bigint\<close>
  arithmetic is unbounded and signed, its division truncates towards zero, and
  \<^verbatim>\<open>Date.now()\<close> counts milliseconds.
\<close>

definition bigint_div :: "int \<Rightarrow> int \<Rightarrow> int" where
  "bigint_div a b = sgn a * sgn b * (\<bar>a\<bar> div \<bar>b\<bar>)"

definition demo_calculateQueuePosition :: "int \<Rightarrow> int \<Rightarrow> int \<Rightarrow> int \<Rightarrow> int" where
  "demo_calculateQueuePosition date_now gasPrice' timestamp' amount' =
     (let gasWeight = gasPrice' * 100;
          amountWeight = bigint_div amount' 1000;
          timePenalty = bigint_div (date_now - timestamp') 60
      in gasWeight + amountWeight - timePenalty)"

subsection \<open>Collaborators: order hash, reentrancy guard, asset custody\<close>

text \<open>
  \<^verbatim>\<open>getOrderHash\<close> is \<^verbatim>\<open>keccak256(abi.encode(...))\<close> of ten fields of the order. The hash
  function is a parameter \<open>keccak\<close> of the model; nothing is assumed about it.
\<close>

type_synonym order_fields =
  "address \<times> nat \<times> nat \<times> nat \<times> nat \<times> nat \<times> nat \<times> nat \<times> address \<times> address"

definition defining_fields :: "PublicOrder \<Rightarrow> order_fields" where
  "defining_fields order =
     (user order, amount order, targetPrice order, gasPrice order, timestamp order,
      expiry order, sourceChain order, targetChain order, makerAsset order, takerAsset order)"

definition getOrderHash :: "(order_fields \<Rightarrow> bytes32) \<Rightarrow> PublicOrder \<Rightarrow> bytes32" where
  "getOrderHash keccak order = keccak (defining_fields order)"

text \<open>
  The \<^verbatim>\<open>nonReentrant\<close> modifier of the inherited \<^verbatim>\<open>ReentrancyGuard\<close>: it reverts when the
  guard is already entered, otherwise it enters the guard, runs the body and leaves the
  guard. The guard is one storage word of the contract, shared by every function that
  carries the modifier.
\<close>

definition nonReentrant :: "(ledger \<Rightarrow> error + ledger) \<Rightarrow> ledger \<Rightarrow> error + ledger" where
  "nonReentrant body s =
     (if entered s then Inl ReentrancyGuardReentrantCall
      else and_then (body (s\<lparr>entered := True\<rparr>)) (\<lambda>s'. Inr (s'\<lparr>entered := False\<rparr>)))"

definition nonReentrant_returning ::
  "(ledger \<Rightarrow> error + 'a \<times> ledger) \<Rightarrow> ledger \<Rightarrow> error + 'a \<times> ledger" where
  "nonReentrant_returning body s =
     (if entered s then Inl ReentrancyGuardReentrantCall
      else and_then (body (s\<lparr>entered := True\<rparr>)) (\<lambda>(r, s'). Inr (r, s'\<lparr>entered := False\<rparr>)))"

text \<open>
  Modelled from the spec: the asset custody collaborator (the ERC-20 tokens behind
  \<^verbatim>\<open>IERC20\<close> and \<^verbatim>\<open>SafeERC20\<close> are imported contracts, not part of the sources). The spec
  gives it as \<^verbatim>\<open>balanceOf(owner, asset)\<close>, \<^verbatim>\<open>transfer(asset, to, amount)\<close> and
  \<^verbatim>\<open>transferFrom(asset, from, to, amount)\<close>, each of which fully succeeds or fully fails:
  a transfer fails when the payer holds less than the amount and moves exactly the amount
  otherwise.
\<close>

definition balanceOf :: "ledger \<Rightarrow> address \<Rightarrow> address \<Rightarrow> nat" where
  "balanceOf s token owner = balances s token owner"

definition move_balance ::
  "address \<Rightarrow> address \<Rightarrow> address \<Rightarrow> nat \<Rightarrow> (address \<Rightarrow> address \<Rightarrow> nat) \<Rightarrow> address \<Rightarrow> address \<Rightarrow> nat" where
  "move_balance token payer payee amt b =
     (let b1 = b(token := (b token)(payer := b token payer - amt))
      in b1(token := (b1 token)(payee := b1 token payee + amt)))"

definition safeTransferFrom ::
  "address \<Rightarrow> address \<Rightarrow> address \<Rightarrow> nat \<Rightarrow> ledger \<Rightarrow> error + ledger" where
  "safeTransferFrom token payer payee amt s =
     (if balances s token payer < amt then Inl TransferFailed
      else Inr (s\<lparr>balances := move_balance token payer payee amt (balances s)\<rparr>))"

definition safeTransfer ::
  "call_ctx \<Rightarrow> address \<Rightarrow> address \<Rightarrow> nat \<Rightarrow> ledger \<Rightarrow> error + ledger" where
  "safeTransfer ctx token payee amt s = safeTransferFrom token (this ctx) payee amt s"

subsection \<open>Internal functions\<close>

text \<open>
  \<^verbatim>\<open>_removeFromActiveOrders\<close>: the first slot holding the hash receives the last element,
  then the array is popped.
\<close>

fun first_index :: "'a list \<Rightarrow> 'a \<Rightarrow> nat option" where
  "first_index [] h = None"
| "first_index (x # xs) h = (if x = h then Some 0 else map_option Suc (first_index xs h))"

definition removeFromActiveOrders :: "bytes32 \<Rightarrow> ledger \<Rightarrow> ledger" where
  "removeFromActiveOrders orderHash s =
     (case first_index (activeOrderHashes s) orderHash of
        None \<Rightarrow> s
      | Some i \<Rightarrow>
          s\<lparr>activeOrderHashes :=
              butlast ((activeOrderHashes s)[i := last (activeOrderHashes s)])\<rparr>)"

definition update_order :: "bytes32 \<Rightarrow> (PublicOrder \<Rightarrow> PublicOrder) \<Rightarrow> ledger \<Rightarrow> ledger" where
  "update_order orderHash f s = s\<lparr>orders := (orders s)(orderHash := f (orders s orderHash))\<rparr>"

text \<open>\<^verbatim>\<open>_cancelOrder\<close>: refund \<^verbatim>\<open>amount - totalFilled\<close>, mark completed, record the reason.\<close>

definition cancelOrder_internal :: "call_ctx \<Rightarrow> bytes32 \<Rightarrow> string \<Rightarrow> ledger \<Rightarrow> error + ledger" where
  "cancelOrder_internal ctx orderHash reason s =
     (let order = orders s orderHash in
      and_then (checked_sub (amount order) (totalFilled (execution order))) (\<lambda>refund.
      and_then (safeTransfer ctx (makerAsset order) (user order) refund s) (\<lambda>s1.
        Inr (removeFromActiveOrders orderHash
              (update_order orderHash
                 (\<lambda>ord. ord\<lparr>execution := (execution ord)\<lparr>isCompleted := True, failureReason := reason\<rparr>\<rparr>)
                 s1)))))"

text \<open>\<^verbatim>\<open>_adjustOrderAmount\<close>: only a decrease to a positive amount; the excess is refunded.\<close>

definition adjustOrderAmount :: "call_ctx \<Rightarrow> bytes32 \<Rightarrow> nat \<Rightarrow> ledger \<Rightarrow> error + ledger" where
  "adjustOrderAmount ctx orderHash newAmount s =
     (let order = orders s orderHash; oldAmount = amount order in
      and_then (require (newAmount > 0) ''Invalid new amount'') (\<lambda>_.
      and_then (require (newAmount < oldAmount) ''Can only decrease amount'') (\<lambda>_.
      and_then (checked_sub oldAmount newAmount) (\<lambda>excessAmount.
      and_then (safeTransfer ctx (makerAsset order) (user order) excessAmount s) (\<lambda>s1.
        Inr (update_order orderHash (\<lambda>ord. ord\<lparr>amount := newAmount\<rparr>) s1))))))"

subsection \<open>Price protection of the ledger\<close>

text \<open>
  \<^verbatim>\<open>checkPriceProtection\<close>: the tolerance is a percentage, the order's own when positive and
  the ledger's \<^verbatim>\<open>globalTolerancePercent\<close> otherwise; the bounds use checked arithmetic.
\<close>

definition effective_tolerance :: "ledger \<Rightarrow> PublicOrder \<Rightarrow> nat" where
  "effective_tolerance s order =
     (if tolerance (priceProtection order) > 0
      then tolerance (priceProtection order) else globalTolerancePercent s)"

definition checkPriceProtection :: "ledger \<Rightarrow> PublicOrder \<Rightarrow> nat \<Rightarrow> error + bool" where
  "checkPriceProtection s order currentMarketPrice =
     (let tol = effective_tolerance s order in
      and_then (checked_sub 100 tol) (\<lambda>lowFactor.
      and_then (checked_mul currentMarketPrice lowFactor) (\<lambda>lowProduct.
      and_then (checked_add 100 tol) (\<lambda>highFactor.
      and_then (checked_mul currentMarketPrice highFactor) (\<lambda>highProduct.
        Inr (targetPrice order \<ge> lowProduct div 100 \<and> targetPrice order \<le> highProduct div 100))))))"

subsection \<open>createOrder\<close>

definition createOrder ::
  "(order_fields \<Rightarrow> bytes32) \<Rightarrow> call_ctx \<Rightarrow> PublicOrder \<Rightarrow> ledger \<Rightarrow> error + bytes32 \<times> ledger" where
  "createOrder keccak ctx order =
     nonReentrant_returning (\<lambda>s.
       and_then (require (user order = msg_sender ctx) ''Invalid user'') (\<lambda>_.
       and_then (require (amount order > 0) ''Invalid amount'') (\<lambda>_.
       and_then (require (targetPrice order > 0) ''Invalid target price'') (\<lambda>_.
       and_then (require (expiry order > block_timestamp ctx) ''Order already expired'') (\<lambda>_.
       and_then (require (makerAsset order \<noteq> takerAsset order) ''Same assets'') (\<lambda>_.
       and_then (if sourceChain order \<noteq> targetChain order
                 then require (wrappedAsset (wrappedToken order) \<noteq> 0) ''Wrapped token required''
                 else Inr ()) (\<lambda>_.
       let orderHash = getOrderHash keccak order in
       and_then (require (user (orders s orderHash) = 0) ''Order already exists'') (\<lambda>_.
       let userBalance = balanceOf s (makerAsset order) (msg_sender ctx) in
       and_then (if bc_enabled (balanceCheck order)
                 then require (userBalance \<ge> amount order) ''Insufficient balance''
                 else Inr ()) (\<lambda>_.
       and_then (safeTransferFrom (makerAsset order) (msg_sender ctx) (this ctx) (amount order) s) (\<lambda>s1.
       and_then (calculateQueuePosition (block_timestamp ctx) (gasPrice order) (timestamp order)
                   (amount order)) (\<lambda>q.
       let stored = order\<lparr>queuePosition := q, timestamp := block_timestamp ctx\<rparr> in
       and_then (checked_add (totalOrdersCreated s1) 1) (\<lambda>created.
         Inr (orderHash,
              s1\<lparr>orders := (orders s1)(orderHash := stored),
                 userOrders := (userOrders s1)
                    (msg_sender ctx := userOrders s1 (msg_sender ctx) @ [orderHash]),
                 activeOrderHashes := activeOrderHashes s1 @ [orderHash],
                 totalOrdersCreated := created\<rparr>)))))))))))))"

subsection \<open>executeOrder, cancelOrder, batchExecuteOrders\<close>

text \<open>
  The balance stage of \<^verbatim>\<open>executeOrder\<close>. It returns \<open>(True, s')\<close> when the order was
  auto-cancelled and the function returns at once, \<open>(False, s')\<close> when execution goes on
  (after an auto-adjustment, or with nothing done).
\<close>

definition balance_stage :: "call_ctx \<Rightarrow> bytes32 \<Rightarrow> ledger \<Rightarrow> error + bool \<times> ledger" where
  "balance_stage ctx orderHash s =
     (let order = orders s orderHash in
      if bc_enabled (balanceCheck order) then
        (let currentBalance = balanceOf s (makerAsset order) (user order) in
         if currentBalance < amount order then
           (if autoCancel (balanceCheck order) then
              and_then (cancelOrder_internal ctx orderHash ''Insufficient balance - auto cancelled'' s)
                (\<lambda>s'. Inr (True, s'))
            else if autoAdjust (balanceCheck order) then
              and_then (adjustOrderAmount ctx orderHash currentBalance s) (\<lambda>s'. Inr (False, s'))
            else Inr (False, s))
         else Inr (False, s))
      else Inr (False, s))"

text \<open>The exchange and the bookkeeping that end a successful \<^verbatim>\<open>executeOrder\<close>.\<close>

definition settle :: "call_ctx \<Rightarrow> bytes32 \<Rightarrow> ledger \<Rightarrow> error + ledger" where
  "settle ctx orderHash s =
     (let order = orders s orderHash in
      and_then (checked_mul (amount order) (targetPrice order)) (\<lambda>product.
      and_then (checked_div product PRICE_PRECISION) (\<lambda>takerAmount.
      and_then (safeTransferFrom (takerAsset order) (msg_sender ctx) (user order) takerAmount s) (\<lambda>s1.
      and_then (safeTransfer ctx (makerAsset order) (msg_sender ctx) (amount order) s1) (\<lambda>s2.
      and_then (checked_add (attempts (execution order)) 1) (\<lambda>tries.
      and_then (checked_add (totalOrdersFilled s2) 1) (\<lambda>filled.
        Inr (removeFromActiveOrders orderHash
              ((update_order orderHash
                 (\<lambda>ord. ord\<lparr>execution := (execution ord)
                     \<lparr>totalFilled := amount order, isCompleted := True, attempts := tries,
                      lastAttempt := block_timestamp ctx\<rparr>\<rparr>)
                 s2)\<lparr>totalOrdersFilled := filled\<rparr>)))))))))"

text \<open>
  \<^verbatim>\<open>executeOrder\<close>, with its modifiers in the order of the source: \<^verbatim>\<open>nonReentrant\<close>, then
  \<^verbatim>\<open>orderExists\<close>, then the body.
\<close>

definition executeOrder :: "call_ctx \<Rightarrow> bytes32 \<Rightarrow> nat \<Rightarrow> ledger \<Rightarrow> error + ledger" where
  "executeOrder ctx orderHash executionPrice =
     nonReentrant (\<lambda>s.
       and_then (require (user (orders s orderHash) \<noteq> 0) ''Order does not exist'') (\<lambda>_.
       let order = orders s orderHash in
       and_then (require (expiry order > block_timestamp ctx) ''Order expired'') (\<lambda>_.
       and_then (require (\<not> isCompleted (execution order)) ''Order already completed'') (\<lambda>_.
       and_then (if pp_enabled (priceProtection order)
                 then and_then (checkPriceProtection s order executionPrice)
                        (\<lambda>isWithinTolerance. require isWithinTolerance ''Price outside tolerance range'')
                 else Inr ()) (\<lambda>_.
       and_then (balance_stage ctx orderHash s) (\<lambda>(returned, s1).
         if returned then Inr s1 else settle ctx orderHash s1))))))"

text \<open>\<^verbatim>\<open>cancelOrder\<close>: modifiers \<^verbatim>\<open>orderExists\<close> and \<^verbatim>\<open>onlyOrderCreator\<close>, then \<^verbatim>\<open>_cancelOrder\<close>.\<close>

definition cancelOrder :: "call_ctx \<Rightarrow> bytes32 \<Rightarrow> ledger \<Rightarrow> error + ledger" where
  "cancelOrder ctx orderHash s =
     and_then (require (user (orders s orderHash) \<noteq> 0) ''Order does not exist'') (\<lambda>_.
     and_then (require (user (orders s orderHash) = msg_sender ctx) ''Not order creator'') (\<lambda>_.
       cancelOrder_internal ctx orderHash ''Cancelled by user'' s))"

text \<open>
  \<^verbatim>\<open>batchExecuteOrders\<close>. Each entry is the external call \<^verbatim>\<open>this.executeOrder(...)\<close>, so
  its \<^verbatim>\<open>msg.sender\<close> is the contract itself and it runs against the storage as it stands,
  guard included. A call that reverts leaves the state as it was before the call; the
  \<^verbatim>\<open>catch\<close> block then counts an attempt and records the failure reason.
\<close>

definition record_batch_failure :: "bytes32 \<Rightarrow> ledger \<Rightarrow> error + ledger" where
  "record_batch_failure orderHash s =
     and_then (checked_add (attempts (execution (orders s orderHash))) 1) (\<lambda>tries.
       Inr (update_order orderHash
             (\<lambda>ord. ord\<lparr>execution := (execution ord)
                 \<lparr>attempts := tries, failureReason := ''Batch execution failed''\<rparr>\<rparr>) s))"

fun batch_loop :: "call_ctx \<Rightarrow> bytes32 list \<Rightarrow> nat list \<Rightarrow> ledger \<Rightarrow> error + ledger" where
  "batch_loop ctx (h # hs) (p # ps) s =
     and_then (case executeOrder (ctx\<lparr>msg_sender := this ctx\<rparr>) h p s of
                 Inr s' \<Rightarrow> Inr s'
               | Inl e \<Rightarrow> record_batch_failure h s) (batch_loop ctx hs ps)"
| "batch_loop ctx hs ps s = Inr s"

definition batchExecuteOrders :: "call_ctx \<Rightarrow> bytes32 list \<Rightarrow> nat list \<Rightarrow> ledger \<Rightarrow> error + ledger" where
  "batchExecuteOrders ctx orderHashes executionPrices =
     nonReentrant (\<lambda>s.
       and_then (require (length orderHashes = length executionPrices) ''Array length mismatch'') (\<lambda>_.
       and_then (require (length orderHashes \<le> 10) ''Too many orders'') (\<lambda>_.
         batch_loop ctx orderHashes executionPrices s)))"

subsection \<open>getOrdersByPriority\<close>

text \<open>
  The two memory arrays \<^verbatim>\<open>sortedOrders\<close> and \<^verbatim>\<open>priorities\<close> have \<^verbatim>\<open>limit\<close> slots, all zero
  at first. The inner \<^verbatim>\<open>while\<close> loop moves slot \<open>j - 1\<close> to slot \<open>j\<close> while the priority
  there is strictly smaller; every index it touches is below \<open>i < limit\<close>.
\<close>

fun shift_down :: "nat \<Rightarrow> nat \<Rightarrow> bytes32 list \<times> nat list \<Rightarrow> nat \<times> bytes32 list \<times> nat list" where
  "shift_down priority 0 (sortedOrders, priorities) = (0, sortedOrders, priorities)"
| "shift_down priority (Suc j) (sortedOrders, priorities) =
     (if priorities ! j < priority
      then shift_down priority j
             (sortedOrders[Suc j := sortedOrders ! j], priorities[Suc j := priorities ! j])
      else (Suc j, sortedOrders, priorities))"

definition insert_order :: "ledger \<Rightarrow> nat \<Rightarrow> bytes32 list \<times> nat list \<Rightarrow> bytes32 list \<times> nat list" where
  "insert_order s i arrays =
     (let orderHash = activeOrderHashes s ! i;
          priority = queuePosition (orders s orderHash)
      in case shift_down priority i arrays of
           (j, sortedOrders, priorities) \<Rightarrow> (sortedOrders[j := orderHash], priorities[j := priority]))"

definition getOrdersByPriority :: "ledger \<Rightarrow> nat \<Rightarrow> error + bytes32 list" where
  "getOrdersByPriority s limit =
     and_then (require (limit \<le> length (activeOrderHashes s)) ''Limit too high'') (\<lambda>_.
       Inr (fst (fold (insert_order s) [0..<limit] (replicate limit 0, replicate limit 0))))"

subsection \<open>Transactions\<close>

text \<open>
  A transaction that reverts leaves the whole state (the ledger's storage and the token
  balances) as it was; one that returns commits its state.
\<close>

definition transact :: "(ledger \<Rightarrow> error + ledger) \<Rightarrow> ledger \<Rightarrow> error option \<times> ledger" where
  "transact f s = (case f s of Inl e \<Rightarrow> (Some e, s) | Inr s' \<Rightarrow> (None, s'))"

text \<open>
  Two tolerance bands around a market price, for a tolerance in percent. The exact band
  \<open>[market * (1 - tol/100), market * (1 + tol/100)]\<close>, compared without any division: a
  price is outside it when it is below the lower or above the upper bound.
\<close>

definition outside_exact_band :: "nat \<Rightarrow> nat \<Rightarrow> nat \<Rightarrow> bool" where
  "outside_exact_band price market tol =
     (price * 100 < market * (100 - tol) \<or> market * (100 + tol) < price * 100)"

text \<open>
  The band with both bounds rounded down to whole units, which is the one the contract's
  integer division yields. It is the narrower notion of being outside: a price less than
  one unit below the exact lower bound is outside the exact band and inside this one.
\<close>

definition outside_band :: "nat \<Rightarrow> nat \<Rightarrow> nat \<Rightarrow> bool" where
  "outside_band price market tol =
     (price < market * (100 - tol) div 100 \<or> market * (100 + tol) div 100 < price)"

section \<open>PriceProtectionOracle: the price aggregator\<close>

subsection \<open>Data\<close>

record PriceFeed =
  oracle_address :: address    \<comment> \<open>the struct's field \<^verbatim>\<open>oracle\<close>\<close>
  heartbeat :: nat
  deviationThreshold :: nat
  isActive :: bool
  isInverted :: bool

record TokenPair =
  baseToken :: address
  quoteToken :: address
  pairId :: bytes32
  primaryFeed :: PriceFeed
  secondaryFeed :: PriceFeed
  lastValidPrice :: nat
  lastUpdateTime :: nat

record PriceData =
  price :: nat
  recordedAt :: nat            \<comment> \<open>the struct's field \<^verbatim>\<open>timestamp\<close>\<close>
  roundId :: nat
  isValid :: bool

record PriceValidation =
  withinTolerance :: bool
  orderPrice :: nat
  marketPrice :: nat
  deviation :: nat
  validationResult :: string

definition BASIS_POINTS :: nat where
  "BASIS_POINTS = 10000"

definition MAX_DEVIATION :: nat where
  "MAX_DEVIATION = 2000"

definition MAJOR_TOLERANCE :: nat where
  "MAJOR_TOLERANCE = 1000"

text \<open>
  The storage of the oracle contract. \<open>oracle_globalTolerancePercent\<close> is the contract's
  \<^verbatim>\<open>globalTolerancePercent\<close> (in basis points; the ledger has a variable of the same name),
  \<open>owner\<close> the owner of the inherited \<^verbatim>\<open>Ownable\<close>.
\<close>

record oracle_state =
  tokenPairs :: "bytes32 \<Rightarrow> TokenPair"
  tokenTolerances :: "address \<Rightarrow> nat"
  priceHistory :: "bytes32 \<Rightarrow> PriceData"
  activePairs :: "bytes32 list"
  oracle_globalTolerancePercent :: nat
  priceUpdateInterval :: nat
  maxPriceAge :: nat
  emergencyPaused :: bool
  owner :: address

text \<open>
  The price feeds are external contracts (\<^verbatim>\<open>AggregatorV3Interface\<close>). What they answer is
  a parameter of the model: \<open>latestRoundData a\<close> is \<open>None\<close> when the call to the feed at
  address \<open>a\<close> reverts, and so is \<open>decimals a\<close>. \<^verbatim>\<open>rawPrice\<close> is an \<^verbatim>\<open>int256\<close>,
  \<^verbatim>\<open>decimals\<close> a \<^verbatim>\<open>uint8\<close>.
\<close>

record RoundData =
  answerRound :: nat
  rawPrice :: int
  startedAt :: nat
  updatedAt :: nat
  answeredInRound :: nat

record feeds =
  latestRoundData :: "address \<Rightarrow> RoundData option"
  decimals :: "address \<Rightarrow> 8 word option"

subsection \<open>Reading a feed\<close>

text \<open>
  The normalisation to 18 decimals,
  \<^verbatim>\<open>uint256(rawPrice) * (PRICE_PRECISION / (10 ** decimals))\<close>, in checked arithmetic.
\<close>

definition normalize_price :: "int \<Rightarrow> 8 word \<Rightarrow> error + nat" where
  "normalize_price raw d =
     and_then (checked_pow 10 (unat d)) (\<lambda>scale.
     and_then (checked_div PRICE_PRECISION scale) (\<lambda>factor.
       checked_mul (nat raw) factor))"

text \<open>
  \<^verbatim>\<open>_getPriceFromFeed\<close>. The \<^verbatim>\<open>catch\<close> covers the call \<^verbatim>\<open>latestRoundData()\<close> only: a
  panic, or a revert of \<^verbatim>\<open>decimals()\<close>, inside the success block reverts the whole
  call. The conditions joined by \<^verbatim>\<open>||\<close> are evaluated left to right and stop at the first
  that holds.
\<close>

definition getPriceFromFeed :: "feeds \<Rightarrow> nat \<Rightarrow> PriceFeed \<Rightarrow> error + nat \<times> bool" where
  "getPriceFromFeed fs now feed =
     (if \<not> isActive feed then Inr (0, False)
      else if oracle_address feed = 0 then Inr (0, False)
      else case latestRoundData fs (oracle_address feed) of
        None \<Rightarrow> Inr (0, False)
      | Some rd \<Rightarrow>
          if rawPrice rd \<le> 0 then Inr (0, False)
          else if updatedAt rd = 0 then Inr (0, False)
          else and_then (checked_sub now (updatedAt rd)) (\<lambda>age.
            if age > heartbeat feed then Inr (0, False)
            else case decimals fs (oracle_address feed) of
              None \<Rightarrow> Inl ExternalCallFailed
            | Some d \<Rightarrow>
                and_then (normalize_price (rawPrice rd) d) (\<lambda>normalized.
                and_then (if isInverted feed \<and> normalized > 0
                          then and_then (checked_mul PRICE_PRECISION PRICE_PRECISION)
                                 (\<lambda>square. checked_div square normalized)
                          else Inr normalized) (\<lambda>result.
                  Inr (result, True)))))"

subsection \<open>Current price, with failover\<close>

definition getCurrentPriceInternal ::
  "feeds \<Rightarrow> nat \<Rightarrow> oracle_state \<Rightarrow> bytes32 \<Rightarrow> error + nat \<times> bool" where
  "getCurrentPriceInternal fs now st pid =
     (let pair = tokenPairs st pid in
      and_then (require (baseToken pair \<noteq> 0) ''Pair not found'') (\<lambda>_.
      and_then (getPriceFromFeed fs now (primaryFeed pair)) (\<lambda>(price1, valid1).
      and_then (if \<not> valid1 \<and> isActive (secondaryFeed pair)
                then getPriceFromFeed fs now (secondaryFeed pair)
                else Inr (price1, valid1)) (\<lambda>(price2, valid2).
        if \<not> valid2 \<and> lastValidPrice pair > 0 then
          and_then (checked_sub now (lastUpdateTime pair)) (\<lambda>age.
            if age \<le> maxPriceAge st then Inr (lastValidPrice pair, True)
            else Inr (price2, valid2))
        else Inr (price2, valid2)))))"

text \<open>
  \<^verbatim>\<open>getCurrentPrice\<close>: the external entry, guarded by \<^verbatim>\<open>notPaused\<close>. The pair identifier
  is \<^verbatim>\<open>keccak256(abi.encodePacked(baseToken, quoteToken))\<close>; the hash is the parameter
  \<open>pair_keccak\<close>.
\<close>

definition getCurrentPrice ::
  "(address \<Rightarrow> address \<Rightarrow> bytes32) \<Rightarrow> feeds \<Rightarrow> nat \<Rightarrow> oracle_state \<Rightarrow> address \<Rightarrow> address
     \<Rightarrow> error + nat \<times> bool" where
  "getCurrentPrice pair_keccak fs now st base quote =
     and_then (require (\<not> emergencyPaused st) ''Price oracle paused'') (\<lambda>_.
       getCurrentPriceInternal fs now st (pair_keccak base quote))"

subsection \<open>Cache update\<close>

definition updatePriceForPair :: "feeds \<Rightarrow> nat \<Rightarrow> bytes32 \<Rightarrow> oracle_state \<Rightarrow> error + oracle_state" where
  "updatePriceForPair fs now pid st =
     and_then (getCurrentPriceInternal fs now st pid) (\<lambda>(newPrice, valid).
       if valid then
         Inr (st\<lparr>tokenPairs := (tokenPairs st)
                   (pid := (tokenPairs st pid)\<lparr>lastValidPrice := newPrice, lastUpdateTime := now\<rparr>),
                 priceHistory := (priceHistory st)
                   (pid := \<lparr>price = newPrice, recordedAt = now, roundId = 0, isValid = True\<rparr>)\<rparr>)
       else Inr st)"

subsection \<open>Tolerances\<close>

definition getDefaultTolerance :: "oracle_state \<Rightarrow> address \<Rightarrow> nat" where
  "getDefaultTolerance st token =
     (if tokenTolerances st token > 0 then tokenTolerances st token else MAJOR_TOLERANCE)"

definition getToleranceForToken :: "oracle_state \<Rightarrow> address \<Rightarrow> nat" where
  "getToleranceForToken st token =
     (if tokenTolerances st token > 0 then tokenTolerances st token
      else oracle_globalTolerancePercent st)"

text \<open>The admin setters, with the modifiers \<^verbatim>\<open>onlyOwner\<close> and \<^verbatim>\<open>validTolerance\<close>.\<close>

definition validTolerance :: "nat \<Rightarrow> error + unit" where
  "validTolerance toleranceValue =
     and_then (require (toleranceValue \<le> MAX_DEVIATION) ''Tolerance too high'') (\<lambda>_.
       require (toleranceValue > 0) ''Tolerance must be positive'')"

definition setGlobalTolerance :: "address \<Rightarrow> nat \<Rightarrow> oracle_state \<Rightarrow> error + oracle_state" where
  "setGlobalTolerance sender toleranceValue st =
     and_then (require (sender = owner st) ''OwnableUnauthorizedAccount'') (\<lambda>_.
     and_then (validTolerance toleranceValue) (\<lambda>_.
       Inr (st\<lparr>oracle_globalTolerancePercent := toleranceValue\<rparr>)))"

definition setTokenTolerance ::
  "address \<Rightarrow> address \<Rightarrow> nat \<Rightarrow> oracle_state \<Rightarrow> error + oracle_state" where
  "setTokenTolerance sender token toleranceValue st =
     and_then (require (sender = owner st) ''OwnableUnauthorizedAccount'') (\<lambda>_.
     and_then (validTolerance toleranceValue) (\<lambda>_.
       Inr (st\<lparr>tokenTolerances := (tokenTolerances st)(token := toleranceValue)\<rparr>)))"

subsection \<open>Validation of an order price\<close>

definition validateOrderPrice ::
  "(address \<Rightarrow> address \<Rightarrow> bytes32) \<Rightarrow> feeds \<Rightarrow> nat \<Rightarrow> oracle_state \<Rightarrow> address \<Rightarrow> address
     \<Rightarrow> nat \<Rightarrow> nat \<Rightarrow> error + PriceValidation" where
  "validateOrderPrice pair_keccak fs now st base quote orderPrice' customTolerance =
     and_then (require (orderPrice' > 0) ''Invalid order price'') (\<lambda>_.
     and_then (getCurrentPriceInternal fs now st (pair_keccak base quote)) (\<lambda>(marketPrice', valid).
     and_then (require valid ''Market price unavailable'') (\<lambda>_.
     let toleranceToUse = (if customTolerance > 0 then customTolerance
                           else getDefaultTolerance st base) in
     and_then (require (toleranceToUse \<le> MAX_DEVIATION) ''Tolerance too high'') (\<lambda>_.
     and_then (checked_sub BASIS_POINTS toleranceToUse) (\<lambda>lowFactor.
     and_then (checked_mul marketPrice' lowFactor) (\<lambda>lowProduct.
     and_then (checked_div lowProduct BASIS_POINTS) (\<lambda>lowerBound.
     and_then (checked_add BASIS_POINTS toleranceToUse) (\<lambda>highFactor.
     and_then (checked_mul marketPrice' highFactor) (\<lambda>highProduct.
     and_then (checked_div highProduct BASIS_POINTS) (\<lambda>upperBound.
     let isWithinTolerance = (orderPrice' \<ge> lowerBound \<and> orderPrice' \<le> upperBound) in
     and_then (if orderPrice' > marketPrice'
               then and_then (checked_sub orderPrice' marketPrice') (\<lambda>diff.
                    and_then (checked_mul diff BASIS_POINTS) (\<lambda>scaled.
                      checked_div scaled marketPrice'))
               else and_then (checked_sub marketPrice' orderPrice') (\<lambda>diff.
                    and_then (checked_mul diff BASIS_POINTS) (\<lambda>scaled.
                      checked_div scaled marketPrice'))) (\<lambda>deviation'.
       Inr \<lparr>withinTolerance = isWithinTolerance, orderPrice = orderPrice',
            marketPrice = marketPrice', deviation = deviation',
            validationResult = (if isWithinTolerance then ''WITHIN_TOLERANCE''
                                else ''OUTSIDE_TOLERANCE'')\<rparr>)))))))))))"

text \<open>
  \<^verbatim>\<open>batchValidateOrderPrices\<close>: each entry is the external call
  \<^verbatim>\<open>this.validateOrderPrice(...)\<close>, outside any \<^verbatim>\<open>try\<close>, so a revert of one entry
  reverts the batch.
\<close>

fun validate_loop ::
  "(address \<Rightarrow> address \<Rightarrow> bytes32) \<Rightarrow> feeds \<Rightarrow> nat \<Rightarrow> oracle_state \<Rightarrow> address list \<Rightarrow> address list
     \<Rightarrow> nat list \<Rightarrow> nat list \<Rightarrow> error + PriceValidation list" where
  "validate_loop pair_keccak fs now st (b # bs) (q # qs) (p # ps) (c # cs) =
     and_then (validateOrderPrice pair_keccak fs now st b q p c) (\<lambda>v.
     and_then (validate_loop pair_keccak fs now st bs qs ps cs) (\<lambda>vs. Inr (v # vs)))"
| "validate_loop pair_keccak fs now st bs qs ps cs = Inr []"

definition batchValidateOrderPrices ::
  "(address \<Rightarrow> address \<Rightarrow> bytes32) \<Rightarrow> feeds \<Rightarrow> nat \<Rightarrow> oracle_state \<Rightarrow> address list \<Rightarrow> address list
     \<Rightarrow> nat list \<Rightarrow> nat list \<Rightarrow> error + PriceValidation list" where
  "batchValidateOrderPrices pair_keccak fs now st baseTokens quoteTokens orderPrices tolerances =
     and_then (require (length baseTokens = length quoteTokens) ''Array length mismatch'') (\<lambda>_.
     and_then (require (length baseTokens = length orderPrices) ''Array length mismatch'') (\<lambda>_.
     and_then (require (length baseTokens = length tolerances) ''Array length mismatch'') (\<lambda>_.
     and_then (require (length baseTokens \<le> 20) ''Too many orders'') (\<lambda>_.
       validate_loop pair_keccak fs now st baseTokens quoteTokens orderPrices tolerances))))"

subsection \<open>Ranking, as a specification\<close>

text \<open>
  What \<^verbatim>\<open>getOrdersByPriority\<close> is compared with: the stable sort of a list of identifiers
  by descending queue position. \<open>sort_key\<close> is the library's stable ascending insertion
  sort; sorting the reversed list and reversing the result sorts in descending order and
  keeps entries of equal queue position in the order of the list.
\<close>

definition priority_of :: "ledger \<Rightarrow> bytes32 \<Rightarrow> nat" where
  "priority_of s orderHash = queuePosition (orders s orderHash)"

definition by_priority :: "ledger \<Rightarrow> bytes32 list \<Rightarrow> bytes32 list" where
  "by_priority s hs = rev (sort_key (priority_of s) (rev hs))"

section \<open>Concrete scenarios\<close>

text \<open>
  The zero value of the order struct (what an absent key of \<^verbatim>\<open>orders\<close> reads as), the
  state right after deployment, and the parties and orders of the worked scenarios. The
  scenarios need some concrete hash function: \<open>toy_keccak\<close> reads the amount field, so
  orders of different amounts get different identifiers.
\<close>

definition no_order :: PublicOrder where
  "no_order =
     \<lparr>user = 0, amount = 0, targetPrice = 0, gasPrice = 0, timestamp = 0, expiry = 0,
      queuePosition = 0, sourceChain = 0, targetChain = 0, makerAsset = 0, takerAsset = 0,
      priceProtection = \<lparr>pp_enabled = False, tolerance = 0, lastPriceCheck = 0, lastMarketPrice = 0\<rparr>,
      wrappedToken = \<lparr>originalToken = 0, wrappedAsset = 0, unwrapAfter = False, bridgeFee = 0\<rparr>,
      balanceCheck = \<lparr>bc_enabled = False, lastCheck = 0, autoAdjust = False, autoCancel = False,
                      minBalance = 0\<rparr>,
      execution = \<lparr>attempts = 0, lastAttempt = 0, failureReason = [], totalFilled = 0,
                   isCompleted = False\<rparr>\<rparr>"

definition deployed :: "(address \<Rightarrow> address \<Rightarrow> nat) \<Rightarrow> ledger" where
  "deployed funds =
     \<lparr>orders = (\<lambda>_. no_order), userOrders = (\<lambda>_. []), activeOrderHashes = [],
      totalOrdersCreated = 0, totalOrdersFilled = 0, globalTolerancePercent = 10,
      entered = False, balances = funds\<rparr>"

definition toy_keccak :: "order_fields \<Rightarrow> bytes32" where
  "toy_keccak f = of_nat (fst (snd f))"

definition ALICE :: address where "ALICE = 0xA11CE"
definition BOB :: address where "BOB = 0xB0B"
definition CAROL :: address where "CAROL = 0xCA201"
definition LEDGER :: address where "LEDGER = 0x1ED6E2"
definition WETH :: address where "WETH = 0xE"
definition USDC :: address where "USDC = 0xC"

definition as_sender :: "address \<Rightarrow> nat \<Rightarrow> call_ctx" where
  "as_sender a now = \<lparr>this = LEDGER, msg_sender = a, block_timestamp = now\<rparr>"

text \<open>Who holds what at the start: Alice and Carol hold WETH, Bob holds USDC.\<close>

definition funds0 :: "address \<Rightarrow> address \<Rightarrow> nat" where
  "funds0 = (\<lambda>token holder.
     if token = WETH \<and> holder = ALICE then 5000
     else if token = WETH \<and> holder = CAROL then 5000
     else if token = USDC \<and> holder = BOB then 1000000
     else 0)"

text \<open>
  A sell order of \<open>amt\<close> WETH units for USDC by \<open>seller\<close>, at 2 USDC per unit, created
  at time 1000 and valid until 5000, with a 10 percent price protection and no balance
  monitoring.
\<close>

definition sell_order :: "address \<Rightarrow> nat \<Rightarrow> nat \<Rightarrow> PublicOrder" where
  "sell_order seller amt gas =
     no_order\<lparr>user := seller, amount := amt, targetPrice := 2 * 10 ^ 18, gasPrice := gas,
              timestamp := 1000, expiry := 5000, sourceChain := 1, targetChain := 1,
              makerAsset := WETH, takerAsset := USDC,
              priceProtection := \<lparr>pp_enabled = True, tolerance = 10, lastPriceCheck = 0,
                                  lastMarketPrice = 0\<rparr>\<rparr>"

text \<open>
  The scenario states. \<open>alice_listed\<close>: Alice has listed 1000 WETH units (identifier
  1000). \<open>both_listed\<close>: Carol has then listed 2000 units (identifier 2000), so the
  ledger holds 3000 units in escrow. Lemmas \<open>alice_listed_reached\<close> and
  \<open>both_listed_reached\<close> below show that \<^verbatim>\<open>createOrder\<close> leads to them.
\<close>

definition alice_listed :: ledger where
  "alice_listed =
     \<lparr>orders = (\<lambda>_. no_order)(1000 := (sell_order ALICE 1000 50)\<lparr>queuePosition := 5001\<rparr>),
      userOrders = (\<lambda>_. [])(ALICE := [1000]), activeOrderHashes = [1000],
      totalOrdersCreated = 1, totalOrdersFilled = 0, globalTolerancePercent = 10,
      entered = False, balances = move_balance WETH ALICE LEDGER 1000 funds0\<rparr>"

definition both_listed :: ledger where
  "both_listed =
     \<lparr>orders = (\<lambda>_. no_order)
         (1000 := (sell_order ALICE 1000 50)\<lparr>queuePosition := 5001\<rparr>,
          2000 := (sell_order CAROL 2000 50)\<lparr>queuePosition := 5002\<rparr>),
      userOrders = (\<lambda>_. [])(ALICE := [1000], CAROL := [2000]),
      activeOrderHashes = [1000, 2000],
      totalOrdersCreated = 2, totalOrdersFilled = 0, globalTolerancePercent = 10,
      entered = False,
      balances = move_balance WETH CAROL LEDGER 2000 (move_balance WETH ALICE LEDGER 1000 funds0)\<rparr>"

text \<open>
  The ranking scenario. \<open>after_create\<close> and \<open>after_cancel\<close> give the state a call
  leaves (the state before, if the call reverts). After Alice's order 1000, Carol lists
  1001 units at time 1010 and Alice 1002 units at time 1020: three orders of the same
  queue position 5001. Then Alice cancels order 1000 at time 1030.
\<close>

definition after_create :: "call_ctx \<Rightarrow> PublicOrder \<Rightarrow> ledger \<Rightarrow> ledger" where
  "after_create ctx order s =
     (case createOrder toy_keccak ctx order s of Inr (h, s') \<Rightarrow> s' | Inl e \<Rightarrow> s)"

definition after_cancel :: "call_ctx \<Rightarrow> bytes32 \<Rightarrow> ledger \<Rightarrow> ledger" where
  "after_cancel ctx orderHash s = snd (transact (cancelOrder ctx orderHash) s)"

definition tie_listed :: ledger where
  "tie_listed =
     after_create (as_sender ALICE 1020) (sell_order ALICE 1002 50)
       (after_create (as_sender CAROL 1010) (sell_order CAROL 1001 50) alice_listed)"

definition tie_after_cancel :: ledger where
  "tie_after_cancel = after_cancel (as_sender ALICE 1030) 1000 tie_listed"

text \<open>
  Alice's order with a tolerance of 101 percent, which \<^verbatim>\<open>createOrder\<close> accepts: it does
  not look at the tolerance.
\<close>

definition wide_listed :: ledger where
  "wide_listed =
     after_create (as_sender ALICE 1000)
       ((sell_order ALICE 1000 50)
          \<lparr>priceProtection := \<lparr>pp_enabled = True, tolerance = 101, lastPriceCheck = 0,
                               lastMarketPrice = 0\<rparr>\<rparr>)
       (deployed funds0)"

text \<open>
  The order as the repository's own client builds it
  (\<^verbatim>\<open>TransparentOrderService.createPublicOrder\<close>): \<^verbatim>\<open>timestamp = BigInt(Date.now())\<close> and
  the expiry 24 hours later, both in milliseconds.
\<close>

definition service_order :: "nat \<Rightarrow> PublicOrder" where
  "service_order date_now =
     (sell_order ALICE 1000 50)\<lparr>timestamp := date_now, expiry := date_now + 1440 * 60 * 1000\<rparr>"

text \<open>
  The oracle scenarios: one pair WETH/USDC (identifier 1) with a primary feed at
  \<open>FEED_A\<close> and a secondary feed at \<open>FEED_B\<close>, both with a heartbeat of 3600 seconds, as
  \<^verbatim>\<open>addPriceFeed\<close> stores them; the contract's initial settings; an empty cache.
\<close>

definition FEED_A :: address where "FEED_A = 0xFA"
definition FEED_B :: address where "FEED_B = 0xFB"
definition ADMIN :: address where "ADMIN = 0xAD"

definition toy_pair_keccak :: "address \<Rightarrow> address \<Rightarrow> bytes32" where
  "toy_pair_keccak b q = (if b = WETH \<and> q = USDC then 1 else 0)"

definition no_feed :: PriceFeed where
  "no_feed = \<lparr>oracle_address = 0, heartbeat = 0, deviationThreshold = 0, isActive = False,
              isInverted = False\<rparr>"

definition no_pair :: TokenPair where
  "no_pair = \<lparr>baseToken = 0, quoteToken = 0, pairId = 0, primaryFeed = no_feed,
              secondaryFeed = no_feed, lastValidPrice = 0, lastUpdateTime = 0\<rparr>"

definition weth_usdc :: TokenPair where
  "weth_usdc =
     \<lparr>baseToken = WETH, quoteToken = USDC, pairId = 1,
      primaryFeed = \<lparr>oracle_address = FEED_A, heartbeat = 3600, deviationThreshold = 500,
                     isActive = True, isInverted = False\<rparr>,
      secondaryFeed = \<lparr>oracle_address = FEED_B, heartbeat = 3600, deviationThreshold = 1000,
                       isActive = True, isInverted = False\<rparr>,
      lastValidPrice = 0, lastUpdateTime = 0\<rparr>"

definition oracle0 :: oracle_state where
  "oracle0 =
     \<lparr>tokenPairs = (\<lambda>_. no_pair)(1 := weth_usdc), tokenTolerances = (\<lambda>_. 0),
      priceHistory = (\<lambda>_. \<lparr>price = 0, recordedAt = 0, roundId = 0, isValid = False\<rparr>),
      activePairs = [1], oracle_globalTolerancePercent = 1000, priceUpdateInterval = 300,
      maxPriceAge = 900, emergencyPaused = False, owner = ADMIN\<rparr>"

text \<open>The same oracle with a cached price of \<open>1999 * 10^18\<close> written at time \<open>t\<close>.\<close>

definition oracle_cached :: "nat \<Rightarrow> oracle_state" where
  "oracle_cached t =
     oracle0\<lparr>tokenPairs := (\<lambda>_. no_pair)
                (1 := weth_usdc\<lparr>lastValidPrice := 1999 * 10 ^ 18, lastUpdateTime := t\<rparr>)\<rparr>"

text \<open>
  A reading of a feed, and the answers of the two feeds: \<open>FEED_A\<close> answers \<open>a\<close> with
  \<open>da\<close> decimals, \<open>FEED_B\<close> answers \<open>b\<close> with 8 decimals, any other address reverts.
\<close>

definition reading :: "int \<Rightarrow> nat \<Rightarrow> RoundData" where
  "reading raw t = \<lparr>answerRound = 1, rawPrice = raw, startedAt = t, updatedAt = t,
                    answeredInRound = 1\<rparr>"

definition two_feeds :: "RoundData option \<Rightarrow> 8 word \<Rightarrow> RoundData option \<Rightarrow> feeds" where
  "two_feeds a da b =
     \<lparr>latestRoundData = (\<lambda>x. if x = FEED_A then a else if x = FEED_B then b else None),
      decimals = (\<lambda>x. if x = FEED_A then Some da else if x = FEED_B then Some 8 else None)\<rparr>"

section \<open>Theorems\<close>

subsection \<open>Basic facts\<close>

lemma and_then_Inl [simp]: "and_then (Inl e) f = Inl e"
  by (simp add: and_then_def)

lemma and_then_Inr [simp]: "and_then (Inr x) f = f x"
  by (simp add: and_then_def)

lemma require_True [simp]: "c \<Longrightarrow> require c msg = Inr ()"
  by (simp add: require_def)

lemma require_False [simp]: "\<not> c \<Longrightarrow> require c msg = Inl (Revert msg)"
  by (simp add: require_def)

lemmas scenario_defs = no_order_def deployed_def toy_keccak_def ALICE_def BOB_def CAROL_def
  LEDGER_def WETH_def USDC_def as_sender_def funds0_def sell_order_def service_order_def
  alice_listed_def both_listed_def

lemmas call_defs = createOrder_def nonReentrant_returning_def nonReentrant_def getOrderHash_def
  defining_fields_def balanceOf_def safeTransferFrom_def safeTransfer_def move_balance_def
  calculateQueuePosition_def checked_add_def checked_sub_def checked_mul_def checked_div_def
  GAS_PRIORITY_MULTIPLIER_def MAX_UINT256_def PRICE_PRECISION_def Let_def
  executeOrder_def cancelOrder_def cancelOrder_internal_def adjustOrderAmount_def
  checkPriceProtection_def effective_tolerance_def balance_stage_def settle_def
  removeFromActiveOrders_def update_order_def batchExecuteOrders_def record_batch_failure_def
  transact_def

lemma alice_listed_reached:
  "createOrder toy_keccak (as_sender ALICE 1000) (sell_order ALICE 1000 50) (deployed funds0) =
     Inr (1000, alice_listed)"
  by (simp add: call_defs scenario_defs)

lemma both_listed_reached:
  "createOrder toy_keccak (as_sender CAROL 1000) (sell_order CAROL 2000 50) alice_listed =
     Inr (2000, both_listed)"
  by (simp add: call_defs scenario_defs)

subsection \<open>Queue position\<close>

lemma calculateQueuePosition_formula:
  assumes "timestamp' \<le> now"
    and "gasPrice' * 100 + amount' div 1000 \<le> MAX_UINT256"
    and "(now - timestamp') div 60 \<le> gasPrice' * 100 + amount' div 1000"
  shows "calculateQueuePosition now gasPrice' timestamp' amount' =
           Inr (gasPrice' * 100 + amount' div 1000 - (now - timestamp') div 60)"
  using assms
  by (simp add: calculateQueuePosition_def and_then_def checked_mul_def checked_div_def
      checked_sub_def checked_add_def GAS_PRIORITY_MULTIPLIER_def)

lemma calculateQueuePosition_one_minute:
  "calculateQueuePosition (now + 60) (50 * 10 ^ 9) now (10 ^ 18) =
     Inr (50 * 10 ^ 9 * 100 + 10 ^ 18 div 1000 - 1)"
  by (simp add: calculateQueuePosition_def and_then_def checked_mul_def checked_div_def
      checked_sub_def checked_add_def GAS_PRIORITY_MULTIPLIER_def MAX_UINT256_def)

text \<open>
  The demo's function follows the same formula on whatever unit its timestamps have, for
  a non-negative amount and a timestamp that is not in the future.
\<close>

lemma demo_calculateQueuePosition_formula:
  assumes "0 \<le> amount'" and "timestamp' \<le> date_now"
  shows "demo_calculateQueuePosition date_now gasPrice' timestamp' amount' =
           gasPrice' * 100 + amount' div 1000 - (date_now - timestamp') div 60"
proof -
  have "bigint_div amount' 1000 = amount' div 1000"
    using assms(1) by (cases "amount' = 0") (simp_all add: bigint_div_def)
  moreover have "bigint_div (date_now - timestamp') 60 = (date_now - timestamp') div 60"
    using assms(2) by (cases "date_now = timestamp'") (simp_all add: bigint_div_def)
  ultimately show ?thesis
    by (simp add: demo_calculateQueuePosition_def)
qed

text \<open>
  C9. The claim's concrete case: gas bid \<open>50 * 10^9\<close>, amount \<open>10^18\<close>, created 60000 ms
  before now, expected priority \<open>50 * 10^9 * 100 + 10^18 / 1000 - 1\<close>. The demo's function
  receives millisecond timestamps (\<^verbatim>\<open>Date.now() - 60000\<close> in its own test, commented
  "1 min ago") and divides the age by 60, so its penalty is 1000, not the one minute its
  comment ("Per minute penalty") promises: the result is 999 below the claimed value.
\<close>

theorem demo_calculateQueuePosition_one_minute:
  "demo_calculateQueuePosition date_now (50 * 10 ^ 9) (date_now - 60000) (10 ^ 18) =
     50 * 10 ^ 9 * 100 + 10 ^ 18 div 1000 - 1000 \<and>
   demo_calculateQueuePosition date_now (50 * 10 ^ 9) (date_now - 60000) (10 ^ 18) \<noteq>
     50 * 10 ^ 9 * 100 + 10 ^ 18 div 1000 - 1"
  by (simp add: demo_calculateQueuePosition_def bigint_div_def)

subsection \<open>Price protection on execution\<close>

lemma checkPriceProtection_outside:
  assumes "outside_band (targetPrice order) m (effective_tolerance s order)"
  shows "checkPriceProtection s order m = Inl Panic \<or> checkPriceProtection s order m = Inr False"
  using assms
  by (auto simp: checkPriceProtection_def outside_band_def Let_def checked_sub_def
      checked_mul_def checked_add_def)

lemma checkPriceProtection_outside_exact:
  assumes "outside_band (targetPrice order) m (effective_tolerance s order)"
    and "effective_tolerance s order \<le> 100"
    and "m * (100 + effective_tolerance s order) \<le> MAX_UINT256"
  shows "checkPriceProtection s order m = Inr False"
proof -
  have "m * (100 - effective_tolerance s order) \<le> m * (100 + effective_tolerance s order)"
    by (rule mult_le_mono2) arith
  then have le: "m * (100 - effective_tolerance s order) \<le> MAX_UINT256"
    using assms(3) by linarith
  have "100 + effective_tolerance s order \<le> MAX_UINT256"
    using assms(2) by (simp add: MAX_UINT256_def)
  then show ?thesis
    using assms le
    by (auto simp: checkPriceProtection_def outside_band_def Let_def checked_sub_def
        checked_mul_def checked_add_def)
qed

lemma outside_band_iff:
  "outside_band p m t \<longleftrightarrow> (p + 1) * 100 \<le> m * (100 - t) \<or> m * (100 + t) < p * 100"
proof -
  have "p < m * (100 - t) div 100 \<longleftrightarrow> Suc p \<le> m * (100 - t) div 100"
    by (simp add: Suc_le_eq)
  also have "\<dots> \<longleftrightarrow> Suc p * 100 \<le> m * (100 - t)"
    by (rule less_eq_div_iff_mult_less_eq) simp
  finally have low: "p < m * (100 - t) div 100 \<longleftrightarrow> (p + 1) * 100 \<le> m * (100 - t)"
    by simp
  have high: "m * (100 + t) div 100 < p \<longleftrightarrow> m * (100 + t) < p * 100"
    by (rule div_less_iff_less_mult) simp
  show ?thesis
    unfolding outside_band_def low high ..
qed

lemma outside_band_imp_exact: "outside_band p m t \<Longrightarrow> outside_exact_band p m t"
  unfolding outside_band_iff outside_exact_band_def by auto

lemma alice_listed_facts:
  "pp_enabled (priceProtection (orders alice_listed 1000))"
  "targetPrice (orders alice_listed 1000) = 2 * 10 ^ 18"
  "effective_tolerance alice_listed (orders alice_listed 1000) = 10"
  by (simp_all add: call_defs scenario_defs)

lemma rounding_edge_executes:
  "fst (transact (executeOrder (as_sender BOB 2000) 1000 2222222222222222223) alice_listed) = None"
  "isCompleted (execution (orders
     (snd (transact (executeOrder (as_sender BOB 2000) 1000 2222222222222222223) alice_listed))
     1000))"
  "balances (snd (transact (executeOrder (as_sender BOB 2000) 1000 2222222222222222223)
     alice_listed)) WETH BOB = 1000"
  "balances (snd (transact (executeOrder (as_sender BOB 2000) 1000 2222222222222222223)
     alice_listed)) USDC ALICE = 2000"
  by (simp_all add: call_defs scenario_defs)

lemma wide_listed_facts:
  "pp_enabled (priceProtection (orders wide_listed 1000))"
  "targetPrice (orders wide_listed 1000) = 2 * 10 ^ 18"
  "effective_tolerance wide_listed (orders wide_listed 1000) = 101"
  "executeOrder (as_sender BOB 2000) 1000 2 wide_listed = Inl Panic"
  by (simp_all add: wide_listed_def after_create_def call_defs scenario_defs)

text \<open>
  C1, as stated, fails. Alice's order has price protection enabled, target price
  \<open>2 * 10^18\<close> and a tolerance of 10 percent. Against the observed market price
  2222222222222222223 the exact lower bound is 2000000000000000000.7, so the target price
  is outside the exact band; the contract's bound is rounded down to \<open>2 * 10^18\<close>, and
  \<^verbatim>\<open>executeOrder\<close> succeeds: the order is completed, Bob receives the 1000 WETH units and
  Alice 2000 USDC. And the failure is not always the named one: an order with a tolerance
  of 101 percent, against a market price of 2 whose exact band its target price exceeds,
  fails with an arithmetic panic (\<^verbatim>\<open>100 - tolerance\<close> underflows).
\<close>

theorem executeOrder_price_protection_counterexample:
  "pp_enabled (priceProtection (orders alice_listed 1000)) \<and>
   targetPrice (orders alice_listed 1000) = 2 * 10 ^ 18 \<and>
   effective_tolerance alice_listed (orders alice_listed 1000) = 10 \<and>
   outside_exact_band (2 * 10 ^ 18) 2222222222222222223 10 \<and>
   fst (transact (executeOrder (as_sender BOB 2000) 1000 2222222222222222223) alice_listed) = None \<and>
   isCompleted (execution (orders
     (snd (transact (executeOrder (as_sender BOB 2000) 1000 2222222222222222223) alice_listed))
     1000)) \<and>
   balances (snd (transact (executeOrder (as_sender BOB 2000) 1000 2222222222222222223)
     alice_listed)) WETH BOB = 1000 \<and>
   balances (snd (transact (executeOrder (as_sender BOB 2000) 1000 2222222222222222223)
     alice_listed)) USDC ALICE = 2000 \<and>
   pp_enabled (priceProtection (orders wide_listed 1000)) \<and>
   targetPrice (orders wide_listed 1000) = 2 * 10 ^ 18 \<and>
   effective_tolerance wide_listed (orders wide_listed 1000) = 101 \<and>
   outside_exact_band (2 * 10 ^ 18) 2 101 \<and>
   executeOrder (as_sender BOB 2000) 1000 2 wide_listed = Inl Panic"
  by (simp add: alice_listed_facts rounding_edge_executes wide_listed_facts
      outside_exact_band_def)

text \<open>
  C1, amended. For an order with price protection enabled and an observed market price
  \<open>m\<close> such that the order's target price is outside the band with bounds rounded down
  (below \<open>m * (100 - tol) div 100\<close> or above \<open>m * (100 + tol) div 100\<close>, for the order's
  tolerance or the global one: by \<open>outside_band_iff\<close>, at least one unit below the exact
  lower bound, or above the exact upper bound), \<^verbatim>\<open>executeOrder\<close> fails, and the
  transaction leaves the whole state as it was: balances, the order's fields and the
  active set. When the order exists, is neither expired nor completed, the tolerance is at
  most 100 and the band's arithmetic does not overflow, the failure is the revert "Price
  outside tolerance range" (the spec's PriceOutOfTolerance).
\<close>

theorem executeOrder_price_protection:
  assumes "pp_enabled (priceProtection (orders s h))"
    and "outside_band (targetPrice (orders s h)) m (effective_tolerance s (orders s h))"
  shows "(\<exists>e. executeOrder ctx h m s = Inl e) \<and>
         snd (transact (executeOrder ctx h m) s) = s \<and>
         (\<not> entered s \<and> user (orders s h) \<noteq> 0 \<and> block_timestamp ctx < expiry (orders s h) \<and>
          \<not> isCompleted (execution (orders s h)) \<and>
          effective_tolerance s (orders s h) \<le> 100 \<and>
          m * (100 + effective_tolerance s (orders s h)) \<le> MAX_UINT256
          \<longrightarrow> executeOrder ctx h m s = Inl (Revert ''Price outside tolerance range''))"
proof -
  let ?s = "s\<lparr>entered := True\<rparr>"
  have same: "orders ?s h = orders s h"
    "effective_tolerance ?s (orders s h) = effective_tolerance s (orders s h)"
    by (simp_all add: effective_tolerance_def)
  have chk: "checkPriceProtection ?s (orders s h) m = Inl Panic \<or>
             checkPriceProtection ?s (orders s h) m = Inr False"
    using checkPriceProtection_outside[of "orders s h" m ?s] assms(2) same by simp
  have fails: "\<exists>e. executeOrder ctx h m s = Inl e"
    using chk assms(1)
    by (auto simp: executeOrder_def nonReentrant_def Let_def require_def)
  have exact: "executeOrder ctx h m s = Inl (Revert ''Price outside tolerance range'')"
    if "\<not> entered s" "user (orders s h) \<noteq> 0" "block_timestamp ctx < expiry (orders s h)"
      "\<not> isCompleted (execution (orders s h))" "effective_tolerance s (orders s h) \<le> 100"
      "m * (100 + effective_tolerance s (orders s h)) \<le> MAX_UINT256"
  proof -
    have "checkPriceProtection ?s (orders s h) m = Inr False"
      using checkPriceProtection_outside_exact[of "orders s h" m ?s] assms(2) same that by simp
    then show ?thesis
      using that assms(1) by (simp add: executeOrder_def nonReentrant_def Let_def)
  qed
  from fails have "snd (transact (executeOrder ctx h m) s) = s"
    by (auto simp: transact_def)
  with fails exact show ?thesis by blast
qed

text \<open>
  Witness for C1: Alice's order (target price \<open>2 * 10^18\<close>, tolerance 10 percent) against
  an observed price of \<open>3 * 10^18\<close>, whose band starts at \<open>2.7 * 10^18\<close>.
\<close>

theorem executeOrder_price_protection_witness:
  "executeOrder (as_sender BOB 2000) 1000 (3 * 10 ^ 18) alice_listed =
     Inl (Revert ''Price outside tolerance range'') \<and>
   snd (transact (executeOrder (as_sender BOB 2000) 1000 (3 * 10 ^ 18)) alice_listed) = alice_listed"
  using executeOrder_price_protection[of alice_listed 1000 "3 * 10 ^ 18" "as_sender BOB 2000"]
  by (simp add: scenario_defs outside_band_def effective_tolerance_def MAX_UINT256_def)

subsection \<open>Terminal transitions\<close>

lemma executeOrder_completed_fails:
  assumes "isCompleted (execution (orders s h))"
  shows "\<exists>e. executeOrder ctx h m s = Inl e"
  using assms by (auto simp: executeOrder_def nonReentrant_def Let_def require_def)

lemma executeOrder_completed_error:
  assumes "isCompleted (execution (orders s h))" and "\<not> entered s"
    and "user (orders s h) \<noteq> 0" and "block_timestamp ctx < expiry (orders s h)"
  shows "executeOrder ctx h m s = Inl (Revert ''Order already completed'')"
  using assms by (simp add: executeOrder_def nonReentrant_def Let_def)

text \<open>
  \<^verbatim>\<open>cancelOrder\<close> has no completion check: on a completed order it pays
  \<^verbatim>\<open>amount - totalFilled\<close> out of the ledger's holdings once more.
\<close>

lemma cancelOrder_completed_pays_again:
  assumes "isCompleted (execution (orders s h))"
    and "user (orders s h) \<noteq> 0" and "user (orders s h) = msg_sender ctx"
    and "user (orders s h) \<noteq> this ctx"
    and "totalFilled (execution (orders s h)) \<le> amount (orders s h)"
    and "amount (orders s h) - totalFilled (execution (orders s h))
           \<le> balances s (makerAsset (orders s h)) (this ctx)"
  shows "\<exists>s'. cancelOrder ctx h s = Inr s' \<and>
           balances s' (makerAsset (orders s h)) (user (orders s h)) =
             balances s (makerAsset (orders s h)) (user (orders s h)) +
             (amount (orders s h) - totalFilled (execution (orders s h)))"
  using assms
  by (simp add: cancelOrder_def cancelOrder_internal_def Let_def checked_sub_def
      safeTransfer_def safeTransferFrom_def move_balance_def removeFromActiveOrders_def
      update_order_def split: option.split)

text \<open>
  C2. The claim fails on \<^verbatim>\<open>cancelOrder\<close>. With Alice's 1000 units and Carol's 2000 units in
  escrow, Alice cancels her order (it is completed and her 1000 units are back: she holds
  5000 again), and cancels it a second time: the second call succeeds as well and refunds
  another 1000 units, so Alice holds 6000 and the ledger only 1000, less than Carol's
  escrow of 2000.
\<close>

theorem cancelOrder_twice_refunds_twice:
  "\<exists>s1 s2. cancelOrder (as_sender ALICE 1100) 1000 both_listed = Inr s1 \<and>
     cancelOrder (as_sender ALICE 1200) 1000 s1 = Inr s2 \<and>
     isCompleted (execution (orders s1 1000)) \<and>
     balances s1 WETH ALICE = 5000 \<and> balances s1 WETH LEDGER = 2000 \<and>
     balances s2 WETH ALICE = 6000 \<and> balances s2 WETH LEDGER = 1000"
  by (simp add: call_defs scenario_defs)

subsection \<open>Batch execution\<close>

lemma executeOrder_entered:
  "entered s \<Longrightarrow> executeOrder ctx h m s = Inl ReentrancyGuardReentrantCall"
  by (simp add: executeOrder_def nonReentrant_def)

lemma batch_loop_entered:
  assumes "entered s" and "batch_loop ctx hs ps s = Inr s'"
  shows "entered s' \<and> balances s' = balances s \<and> activeOrderHashes s' = activeOrderHashes s \<and>
         totalOrdersFilled s' = totalOrdersFilled s \<and>
         isCompleted (execution (orders s' k)) = isCompleted (execution (orders s k))"
  using assms
proof (induction ctx hs ps s rule: batch_loop.induct)
  case (1 ctx h hs p ps s)
  from "1.prems" obtain s1 where s1: "record_batch_failure h s = Inr s1"
    and rest: "batch_loop ctx hs ps s1 = Inr s'"
    by (auto simp: executeOrder_entered and_then_def split: sum.splits)
  from s1 "1.prems"(1) have keep: "entered s1" "balances s1 = balances s"
    "activeOrderHashes s1 = activeOrderHashes s" "totalOrdersFilled s1 = totalOrdersFilled s"
    "isCompleted (execution (orders s1 k)) = isCompleted (execution (orders s k))"
    by (auto simp: record_batch_failure_def update_order_def and_then_def
        split: sum.splits if_splits)
  from "1.IH"[OF keep(1) rest] keep show ?case by simp
qed simp_all

text \<open>
  Whatever the batch holds, \<^verbatim>\<open>batchExecuteOrders\<close> executes no order: each entry's
  \<^verbatim>\<open>this.executeOrder\<close> meets the guard that \<^verbatim>\<open>batchExecuteOrders\<close> itself has entered.
\<close>

lemma batchExecuteOrders_executes_nothing:
  assumes "batchExecuteOrders ctx hs ps s = Inr s'"
  shows "balances s' = balances s \<and> activeOrderHashes s' = activeOrderHashes s \<and>
         totalOrdersFilled s' = totalOrdersFilled s \<and>
         isCompleted (execution (orders s' k)) = isCompleted (execution (orders s k))"
proof -
  from assms obtain s1 where "batch_loop ctx hs ps (s\<lparr>entered := True\<rparr>) = Inr s1"
    and s': "s' = s1\<lparr>entered := False\<rparr>"
    by (auto simp: batchExecuteOrders_def nonReentrant_def and_then_def require_def
        split: if_splits sum.splits)
  from batch_loop_entered[OF _ this(1), of k] s' show ?thesis by simp
qed

lemma batchExecuteOrders_too_many:
  assumes "\<not> entered s" and "length hs = length ps" and "10 < length hs"
  shows "batchExecuteOrders ctx hs ps s = Inl (Revert ''Too many orders'')"
  using assms by (simp add: batchExecuteOrders_def nonReentrant_def)

text \<open>
  C3. The claim fails for an entry that would succeed alone. Bob's \<^verbatim>\<open>executeOrder\<close> of
  Alice's order at the price \<open>2 * 10^18\<close> succeeds: the order is completed, leaves the
  active set, Bob receives the 1000 WETH units and Alice 2000 USDC. The same entry in a
  batch of one is not executed: the order stays active and uncompleted, no asset moves, and
  the entry is recorded as a failed attempt.
\<close>

theorem batchExecuteOrders_fails_valid_entry:
  "(\<exists>s'. executeOrder (as_sender BOB 2000) 1000 (2 * 10 ^ 18) alice_listed = Inr s' \<and>
      isCompleted (execution (orders s' 1000)) \<and> activeOrderHashes s' = [] \<and>
      balances s' WETH BOB = 1000 \<and> balances s' USDC ALICE = 2000) \<and>
   (\<exists>s'. batchExecuteOrders (as_sender BOB 2000) [1000] [2 * 10 ^ 18] alice_listed = Inr s' \<and>
      \<not> isCompleted (execution (orders s' 1000)) \<and> activeOrderHashes s' = [1000] \<and>
      attempts (execution (orders s' 1000)) = 1 \<and>
      failureReason (execution (orders s' 1000)) = ''Batch execution failed'' \<and>
      balances s' = balances alice_listed)"
  by (simp add: call_defs scenario_defs)

subsection \<open>Order creation\<close>

text \<open>
  What a successful \<^verbatim>\<open>createOrder\<close> has checked and done; the escrow and the balance
  check; sufficient conditions for success; and the rejection of a second submission of
  the same defining fields.
\<close>

lemma createOrder_unfold:
  assumes "createOrder keccak ctx order s = Inr (h, s')"
  shows "\<not> entered s \<and> user order = msg_sender ctx \<and> 0 < amount order \<and> 0 < targetPrice order \<and>
         block_timestamp ctx < expiry order \<and> makerAsset order \<noteq> takerAsset order \<and>
         h = getOrderHash keccak order \<and> user (orders s h) = 0 \<and>
         (bc_enabled (balanceCheck order) \<longrightarrow>
            amount order \<le> balances s (makerAsset order) (msg_sender ctx)) \<and>
         amount order \<le> balances s (makerAsset order) (msg_sender ctx) \<and>
         (\<exists>q. calculateQueuePosition (block_timestamp ctx) (gasPrice order) (timestamp order)
                 (amount order) = Inr q \<and>
              s' = s\<lparr>orders := (orders s)
                       (h := order\<lparr>queuePosition := q, timestamp := block_timestamp ctx\<rparr>),
                     userOrders := (userOrders s)
                       (msg_sender ctx := userOrders s (msg_sender ctx) @ [h]),
                     activeOrderHashes := activeOrderHashes s @ [h],
                     totalOrdersCreated := totalOrdersCreated s + 1,
                     balances := move_balance (makerAsset order) (msg_sender ctx) (this ctx)
                       (amount order) (balances s)\<rparr>)"
  using assms
  by (auto simp: createOrder_def nonReentrant_returning_def and_then_def require_def Let_def
      balanceOf_def safeTransferFrom_def checked_add_def
      split: if_splits sum.splits)

lemma createOrder_escrow:
  assumes "createOrder keccak ctx order s = Inr (h, s')" and "msg_sender ctx \<noteq> this ctx"
  shows "balances s' (makerAsset order) (this ctx) =
           balances s (makerAsset order) (this ctx) + amount order \<and>
         balances s' (makerAsset order) (msg_sender ctx) + amount order =
           balances s (makerAsset order) (msg_sender ctx) \<and>
         amount (orders s' h) = amount order \<and> user (orders s' h) = msg_sender ctx \<and>
         timestamp (orders s' h) = block_timestamp ctx \<and>
         activeOrderHashes s' = activeOrderHashes s @ [h] \<and>
         (bc_enabled (balanceCheck order) \<longrightarrow>
            amount order \<le> balances s (makerAsset order) (msg_sender ctx))"
  using createOrder_unfold[OF assms(1)] assms(2)
  by (auto simp: move_balance_def Let_def)

lemma createOrder_succeeds:
  assumes "\<not> entered s" and "user order = msg_sender ctx" and "0 < amount order"
    and "0 < targetPrice order" and "block_timestamp ctx < expiry order"
    and "makerAsset order \<noteq> takerAsset order"
    and "sourceChain order = targetChain order \<or> wrappedAsset (wrappedToken order) \<noteq> 0"
    and "user (orders s (getOrderHash keccak order)) = 0"
    and "amount order \<le> balances s (makerAsset order) (msg_sender ctx)"
    and "timestamp order \<le> block_timestamp ctx"
    and "gasPrice order * 100 + amount order div 1000 \<le> MAX_UINT256"
    and "(block_timestamp ctx - timestamp order) div 60 \<le> gasPrice order * 100 + amount order div 1000"
    and "totalOrdersCreated s < MAX_UINT256"
  shows "\<exists>s'. createOrder keccak ctx order s = Inr (getOrderHash keccak order, s')"
proof -
  have "calculateQueuePosition (block_timestamp ctx) (gasPrice order) (timestamp order)
          (amount order) =
        Inr (gasPrice order * 100 + amount order div 1000 -
             (block_timestamp ctx - timestamp order) div 60)"
    using assms(10-12) by (rule calculateQueuePosition_formula)
  then show ?thesis
    using assms(1-9,13)
    by (auto simp: createOrder_def nonReentrant_returning_def Let_def balanceOf_def
        safeTransferFrom_def checked_add_def)
qed

lemma createOrder_duplicate:
  assumes "createOrder keccak ctx order s = Inr (h, s')" and "msg_sender ctx \<noteq> 0"
    and "defining_fields order' = defining_fields order"
  shows "(\<exists>e. createOrder keccak ctx' order' s' = Inl e) \<and>
         (user order' = msg_sender ctx' \<and> block_timestamp ctx' < expiry order' \<and>
          (sourceChain order' = targetChain order' \<or> wrappedAsset (wrappedToken order') \<noteq> 0)
          \<longrightarrow> createOrder keccak ctx' order' s' = Inl (Revert ''Order already exists''))"
proof -
  note first = createOrder_unfold[OF assms(1)]
  have same: "getOrderHash keccak order' = h" "amount order' = amount order"
    "targetPrice order' = targetPrice order" "makerAsset order' = makerAsset order"
    "takerAsset order' = takerAsset order"
    using assms(3) first by (simp_all add: getOrderHash_def defining_fields_def)
  have stored: "user (orders s' h) \<noteq> 0" "\<not> entered s'"
    using first assms(2) by auto
  have fails: "\<exists>e. createOrder keccak ctx' order' s' = Inl e"
    using same stored
    by (auto simp: createOrder_def nonReentrant_returning_def Let_def require_def and_then_def
        split: sum.splits)
  have exact: "createOrder keccak ctx' order' s' = Inl (Revert ''Order already exists'')"
    if "user order' = msg_sender ctx'" "block_timestamp ctx' < expiry order'"
      "sourceChain order' = targetChain order' \<or> wrappedAsset (wrappedToken order') \<noteq> 0"
    using that same stored first
    by (auto simp: createOrder_def nonReentrant_returning_def Let_def)
  from fails exact show ?thesis by blast
qed

text \<open>
  The queue position is an unsigned number: an order whose time penalty exceeds its gas and
  amount weights (here no gas bid, 500 units, submitted 60 seconds after its timestamp) is
  refused with a panic as well.
\<close>

lemma createOrder_priority_underflow:
  "createOrder toy_keccak (as_sender ALICE 1060) (sell_order ALICE 500 0) (deployed funds0) =
     Inl Panic"
  by (simp add: call_defs scenario_defs)

text \<open>
  C8. The claim fails for the order the repository's own client submits. Its timestamp is
  \<^verbatim>\<open>Date.now()\<close> in milliseconds (here 1700000000000) while \<^verbatim>\<open>block.timestamp\<close> counts
  seconds (here 1700000000): \<^verbatim>\<open>createOrder\<close> computes the queue position from the
  submitted timestamp before it overwrites it, the subtraction
  \<^verbatim>\<open>block.timestamp - timestamp\<close> underflows, and the call reverts with a panic although
  the order passes every validation and Alice holds the funds. The same order with the
  timestamp in seconds is accepted. The rest of the claim holds: a successful call has
  moved exactly the amount into the ledger's custody, after the balance check when it is
  enabled (\<open>createOrder_escrow\<close>), and a second submission of the same defining fields
  is rejected (\<open>createOrder_duplicate\<close>).
\<close>

theorem createOrder_client_order_panics:
  "createOrder toy_keccak (as_sender ALICE 1700000000) (service_order 1700000000000)
     (deployed funds0) = Inl Panic \<and>
   (\<exists>s'. createOrder toy_keccak (as_sender ALICE 1700000000)
            ((service_order 1700000000000)\<lparr>timestamp := 1700000000\<rparr>) (deployed funds0) =
          Inr (1000, s'))"
  by (simp add: call_defs scenario_defs)

subsection \<open>The oracle: reading a feed\<close>

lemmas oracle_scenario_defs = FEED_A_def FEED_B_def ADMIN_def toy_pair_keccak_def no_feed_def
  no_pair_def weth_usdc_def oracle0_def oracle_cached_def reading_def two_feeds_def WETH_def
  USDC_def

lemmas oracle_call_defs = getPriceFromFeed_def normalize_price_def getCurrentPriceInternal_def
  getCurrentPrice_def updatePriceForPair_def getDefaultTolerance_def getToleranceForToken_def
  validTolerance_def setGlobalTolerance_def setTokenTolerance_def validateOrderPrice_def
  batchValidateOrderPrices_def checked_add_def checked_sub_def checked_mul_def checked_div_def
  checked_pow_def MAX_UINT256_def PRICE_PRECISION_def BASIS_POINTS_def MAX_DEVIATION_def
  MAJOR_TOLERANCE_def Let_def

lemma getPriceFromFeed_valid:
  assumes "getPriceFromFeed fs now feed = Inr (p, True)"
  shows "isActive feed \<and> oracle_address feed \<noteq> 0 \<and>
         (\<exists>rd. latestRoundData fs (oracle_address feed) = Some rd \<and> rawPrice rd > 0 \<and>
               updatedAt rd \<noteq> 0 \<and> updatedAt rd \<le> now \<and> now - updatedAt rd \<le> heartbeat feed)"
  using assms
  by (auto simp: getPriceFromFeed_def checked_sub_def and_then_def
      split: if_splits option.splits sum.splits)

lemma getPriceFromFeed_stale:
  assumes "latestRoundData fs (oracle_address feed) = Some rd"
    and "updatedAt rd \<le> now" and "heartbeat feed < now - updatedAt rd"
  shows "getPriceFromFeed fs now feed = Inr (0, False)"
  using assms by (simp add: getPriceFromFeed_def checked_sub_def)

lemma getPriceFromFeed_accepted:
  assumes "isActive feed" and "oracle_address feed \<noteq> 0"
    and "latestRoundData fs (oracle_address feed) = Some rd"
    and "rawPrice rd > 0" and "updatedAt rd \<noteq> 0" and "updatedAt rd \<le> now"
    and "now - updatedAt rd \<le> heartbeat feed"
    and "decimals fs (oracle_address feed) = Some d"
  shows "getPriceFromFeed fs now feed =
           and_then (normalize_price (rawPrice rd) d) (\<lambda>normalized.
           and_then (if isInverted feed \<and> normalized > 0
                     then and_then (checked_mul PRICE_PRECISION PRICE_PRECISION)
                            (\<lambda>square. checked_div square normalized)
                     else Inr normalized) (\<lambda>result. Inr (result, True)))"
  using assms by (simp add: getPriceFromFeed_def checked_sub_def)

lemma pow10_small: "n \<le> 77 \<Longrightarrow> (10::nat) ^ n \<le> MAX_UINT256"
proof -
  assume "n \<le> 77"
  then have "(10::nat) ^ n \<le> 10 ^ 77" by (intro power_increasing) simp_all
  also have "(10::nat) ^ 77 \<le> MAX_UINT256" by (simp add: MAX_UINT256_def)
  finally show ?thesis .
qed

lemma pow10_large: "77 < n \<Longrightarrow> \<not> (10::nat) ^ n \<le> MAX_UINT256"
proof -
  assume "77 < n"
  then have "(10::nat) ^ 78 \<le> 10 ^ n" by (intro power_increasing) simp_all
  moreover have "MAX_UINT256 < (10::nat) ^ 78" by (simp add: MAX_UINT256_def)
  ultimately show ?thesis by linarith
qed

lemma normalize_price_le18:
  assumes "unat d \<le> 18" and "nat raw * 10 ^ (18 - unat d) \<le> MAX_UINT256"
  shows "normalize_price raw d = Inr (nat raw * 10 ^ (18 - unat d))"
proof -
  have "(10::nat) ^ 18 div 10 ^ unat d = 10 ^ (18 - unat d)"
    using assms(1) by (simp add: power_diff)
  moreover have "(10::nat) ^ unat d \<le> MAX_UINT256"
    using assms(1) by (intro pow10_small) simp
  ultimately show ?thesis
    using assms(2)
    by (simp add: normalize_price_def checked_pow_def checked_div_def checked_mul_def
        PRICE_PRECISION_def)
qed

lemma normalize_price_mid:
  assumes "18 < unat d" and "unat d \<le> 77"
  shows "normalize_price raw d = Inr 0"
proof -
  have "(10::nat) ^ 18 < 10 ^ unat d"
    using assms(1) by (intro power_strict_increasing) simp_all
  then have "(10::nat) ^ 18 div 10 ^ unat d = 0" by simp
  moreover have "(10::nat) ^ unat d \<le> MAX_UINT256"
    using assms(2) by (rule pow10_small)
  ultimately show ?thesis
    by (simp add: normalize_price_def checked_pow_def checked_div_def checked_mul_def
        PRICE_PRECISION_def)
qed

lemma normalize_price_large:
  assumes "77 < unat d"
  shows "normalize_price raw d = Inl Panic"
  using pow10_large[OF assms]
  by (simp add: normalize_price_def checked_pow_def)

lemma normalize_price_overflow:
  assumes "unat d \<le> 18" and "MAX_UINT256 < nat raw * 10 ^ (18 - unat d)"
  shows "normalize_price raw d = Inl Panic"
proof -
  have "(10::nat) ^ 18 div 10 ^ unat d = 10 ^ (18 - unat d)"
    using assms(1) by (simp add: power_diff)
  moreover have "(10::nat) ^ unat d \<le> MAX_UINT256"
    using assms(1) by (intro pow10_small) simp
  ultimately show ?thesis
    using assms(2)
    by (simp add: normalize_price_def checked_pow_def checked_div_def checked_mul_def
        PRICE_PRECISION_def)
qed

text \<open>
  C10, as stated, fails for the feeds of 78 decimals and more (\<^verbatim>\<open>decimals\<close> is a
  \<^verbatim>\<open>uint8\<close>): \<^verbatim>\<open>10 ** 78\<close> does not fit a \<^verbatim>\<open>uint256\<close>, the power panics, and the read
  reverts instead of returning price 0 as valid. Here the feed reports 78 decimals with a
  fresh, positive reading.
\<close>

theorem feed_normalization_counterexample:
  "getPriceFromFeed (two_feeds (Some (reading (2000 * 10 ^ 8) 9000)) 78 None) 10000
     (primaryFeed weth_usdc) = Inl Panic \<and>
   getPriceFromFeed (two_feeds (Some (reading (2000 * 10 ^ 8) 9000)) 78 None) 10000
     (primaryFeed weth_usdc) \<noteq> Inr (0, True)"
  by (simp add: oracle_call_defs oracle_scenario_defs)

text \<open>
  C10, amended. For an active feed whose reading passes the three checks (positive raw
  price, non-zero update time, age within the heartbeat) and that reports \<open>d\<close> decimals:
  with \<open>d \<le> 18\<close>, on a feed that is not inverted, the read returns
  \<open>rawPrice * 10^(18 - d)\<close> as valid when that product fits a \<^verbatim>\<open>uint256\<close> (on an
  inverted feed, \<open>10^36\<close> divided by it), and reverts with a panic when it does not; with
  \<open>18 < d \<le> 77\<close> the quotient \<^verbatim>\<open>1e18 / 10^d\<close> is 0 and the read returns price 0 as
  valid, which \<^verbatim>\<open>_getCurrentPriceInternal\<close> serves and \<^verbatim>\<open>_updatePriceForPair\<close> caches as
  \<^verbatim>\<open>lastValidPrice\<close> when the feed is the pair's primary feed; with \<open>d > 77\<close> the read
  reverts with a panic.
\<close>

theorem feed_normalization:
  assumes "isActive feed" and "oracle_address feed \<noteq> 0"
    and "latestRoundData fs (oracle_address feed) = Some rd"
    and "rawPrice rd > 0" and "updatedAt rd \<noteq> 0" and "updatedAt rd \<le> now"
    and "now - updatedAt rd \<le> heartbeat feed"
    and "decimals fs (oracle_address feed) = Some d"
  shows "(unat d \<le> 18 \<and> \<not> isInverted feed \<and>
            nat (rawPrice rd) * 10 ^ (18 - unat d) \<le> MAX_UINT256 \<longrightarrow>
            getPriceFromFeed fs now feed = Inr (nat (rawPrice rd) * 10 ^ (18 - unat d), True)) \<and>
         (unat d \<le> 18 \<and> isInverted feed \<and>
            nat (rawPrice rd) * 10 ^ (18 - unat d) \<le> MAX_UINT256 \<longrightarrow>
            getPriceFromFeed fs now feed =
              Inr (10 ^ 36 div (nat (rawPrice rd) * 10 ^ (18 - unat d)), True)) \<and>
         (unat d \<le> 18 \<and> MAX_UINT256 < nat (rawPrice rd) * 10 ^ (18 - unat d) \<longrightarrow>
            getPriceFromFeed fs now feed = Inl Panic) \<and>
         (18 < unat d \<and> unat d \<le> 77 \<longrightarrow>
            normalize_price (rawPrice rd) d = Inr 0 \<and>
            getPriceFromFeed fs now feed = Inr (0, True)) \<and>
         (18 < unat d \<and> unat d \<le> 77 \<and> primaryFeed (tokenPairs st pid) = feed \<and>
            baseToken (tokenPairs st pid) \<noteq> 0 \<longrightarrow>
            getCurrentPriceInternal fs now st pid = Inr (0, True) \<and>
            (\<exists>st'. updatePriceForPair fs now pid st = Inr st' \<and>
               lastValidPrice (tokenPairs st' pid) = 0 \<and>
               lastUpdateTime (tokenPairs st' pid) = now \<and>
               priceHistory st' pid =
                 \<lparr>price = 0, recordedAt = now, roundId = 0, isValid = True\<rparr>)) \<and>
         (77 < unat d \<longrightarrow> getPriceFromFeed fs now feed = Inl Panic)"
proof -
  note read = getPriceFromFeed_accepted[OF assms]
  have small: "getPriceFromFeed fs now feed = Inr (nat (rawPrice rd) * 10 ^ (18 - unat d), True)"
    if "unat d \<le> 18" "\<not> isInverted feed"
      "nat (rawPrice rd) * 10 ^ (18 - unat d) \<le> MAX_UINT256"
    using that read normalize_price_le18[of d "rawPrice rd"] by simp
  have inverted: "getPriceFromFeed fs now feed =
      Inr (10 ^ 36 div (nat (rawPrice rd) * 10 ^ (18 - unat d)), True)"
    if "unat d \<le> 18" "isInverted feed"
      "nat (rawPrice rd) * 10 ^ (18 - unat d) \<le> MAX_UINT256"
  proof -
    have "0 < nat (rawPrice rd) * 10 ^ (18 - unat d)"
      using assms(4) by simp
    moreover have "(10::nat) ^ 18 * 10 ^ 18 = 10 ^ 36" "(10::nat) ^ 36 \<le> MAX_UINT256"
      by (simp_all add: MAX_UINT256_def)
    ultimately show ?thesis
      using that read normalize_price_le18[of d "rawPrice rd"]
      by (simp add: checked_mul_def checked_div_def PRICE_PRECISION_def)
  qed
  have overflow: "getPriceFromFeed fs now feed = Inl Panic"
    if "unat d \<le> 18" "MAX_UINT256 < nat (rawPrice rd) * 10 ^ (18 - unat d)"
    using that read normalize_price_overflow[of d "rawPrice rd"] by simp
  have mid: "getPriceFromFeed fs now feed = Inr (0, True)" if "18 < unat d" "unat d \<le> 77"
    using that read normalize_price_mid[of d "rawPrice rd"] by simp
  have cached: "getCurrentPriceInternal fs now st pid = Inr (0, True) \<and>
            (\<exists>st'. updatePriceForPair fs now pid st = Inr st' \<and>
               lastValidPrice (tokenPairs st' pid) = 0 \<and>
               lastUpdateTime (tokenPairs st' pid) = now \<and>
               priceHistory st' pid =
                 \<lparr>price = 0, recordedAt = now, roundId = 0, isValid = True\<rparr>)"
    if "18 < unat d" "unat d \<le> 77" "primaryFeed (tokenPairs st pid) = feed"
      "baseToken (tokenPairs st pid) \<noteq> 0"
  proof -
    have "getCurrentPriceInternal fs now st pid = Inr (0, True)"
      using mid[OF that(1,2)] that(3,4) by (simp add: getCurrentPriceInternal_def Let_def)
    then show ?thesis by (simp add: updatePriceForPair_def)
  qed
  have large: "getPriceFromFeed fs now feed = Inl Panic" if "77 < unat d"
    using that read normalize_price_large[of d "rawPrice rd"] by simp
  from small inverted overflow mid cached large normalize_price_mid[of d "rawPrice rd"]
  show ?thesis by blast
qed

text \<open>
  Witness for C10: the primary feed of WETH/USDC with a fresh reading of \<open>2000 * 10^8\<close>,
  once reporting 8 decimals (normalised to \<open>2000 * 10^18\<close>), once reporting 20 decimals
  (price 0, valid, served and cached).
\<close>

theorem feed_normalization_witness:
  "getPriceFromFeed (two_feeds (Some (reading (2000 * 10 ^ 8) 9000)) 8 None) 10000
     (primaryFeed weth_usdc) = Inr (2000 * 10 ^ 18, True) \<and>
   getPriceFromFeed (two_feeds (Some (reading (2000 * 10 ^ 8) 9000)) 20 None) 10000
     (primaryFeed weth_usdc) = Inr (0, True) \<and>
   getCurrentPriceInternal (two_feeds (Some (reading (2000 * 10 ^ 8) 9000)) 20 None) 10000
     oracle0 1 = Inr (0, True) \<and>
   (\<exists>st'. updatePriceForPair (two_feeds (Some (reading (2000 * 10 ^ 8) 9000)) 20 None) 10000 1
             oracle0 = Inr st' \<and>
      lastValidPrice (tokenPairs st' 1) = 0 \<and> lastUpdateTime (tokenPairs st' 1) = 10000 \<and>
      priceHistory st' 1 = \<lparr>price = 0, recordedAt = 10000, roundId = 0, isValid = True\<rparr>)"
  using
    feed_normalization[of "primaryFeed weth_usdc"
      "two_feeds (Some (reading (2000 * 10 ^ 8) 9000)) 8 None" "reading (2000 * 10 ^ 8) 9000"
      10000 8 oracle0 1]
    feed_normalization[of "primaryFeed weth_usdc"
      "two_feeds (Some (reading (2000 * 10 ^ 8) 9000)) 20 None" "reading (2000 * 10 ^ 8) 9000"
      10000 20 oracle0 1]
  by (simp add: oracle_scenario_defs MAX_UINT256_def)

subsection \<open>The oracle: failover\<close>

text \<open>
  C5. \<^verbatim>\<open>getCurrentPrice\<close> on a registered pair, the oracle not being paused. (1) A feed's
  reading is accepted only if the feed is active, the raw price is positive, the update
  time is not zero and the age is within the heartbeat. (2) An accepted primary reading is
  the result. (3) When the primary reading is rejected and the secondary feed is active, an
  accepted secondary reading is the result; (4) in particular when the primary is stale.
  (5) When both fail (the secondary being rejected too, or not active), the cached price
  is returned as valid exactly when it is positive and its age is at most
  \<^verbatim>\<open>maxPriceAge\<close>; otherwise the result is invalid.
\<close>

theorem getCurrentPrice_failover:
  assumes "\<not> emergencyPaused st" and "pid = pair_keccak base quote"
    and "baseToken (tokenPairs st pid) \<noteq> 0"
  shows "(getPriceFromFeed fs now feed = Inr (p0, True) \<longrightarrow>
            isActive feed \<and>
            (\<exists>rd. latestRoundData fs (oracle_address feed) = Some rd \<and> rawPrice rd > 0 \<and>
               updatedAt rd \<noteq> 0 \<and> now - updatedAt rd \<le> heartbeat feed)) \<and>
         (getPriceFromFeed fs now (primaryFeed (tokenPairs st pid)) = Inr (p1, True) \<longrightarrow>
            getCurrentPrice pair_keccak fs now st base quote = Inr (p1, True)) \<and>
         (getPriceFromFeed fs now (primaryFeed (tokenPairs st pid)) = Inr (p2, False) \<and>
            isActive (secondaryFeed (tokenPairs st pid)) \<and>
            getPriceFromFeed fs now (secondaryFeed (tokenPairs st pid)) = Inr (q2, True) \<longrightarrow>
            getCurrentPrice pair_keccak fs now st base quote = Inr (q2, True)) \<and>
         (latestRoundData fs (oracle_address (primaryFeed (tokenPairs st pid))) = Some rd3 \<and>
            updatedAt rd3 \<le> now \<and>
            heartbeat (primaryFeed (tokenPairs st pid)) < now - updatedAt rd3 \<and>
            isActive (secondaryFeed (tokenPairs st pid)) \<and>
            getPriceFromFeed fs now (secondaryFeed (tokenPairs st pid)) = Inr (q3, True) \<longrightarrow>
            getCurrentPrice pair_keccak fs now st base quote = Inr (q3, True)) \<and>
         (getPriceFromFeed fs now (primaryFeed (tokenPairs st pid)) = Inr (p4, False) \<and>
            (if isActive (secondaryFeed (tokenPairs st pid))
             then getPriceFromFeed fs now (secondaryFeed (tokenPairs st pid)) = Inr (q4, False)
             else q4 = p4) \<and>
            lastUpdateTime (tokenPairs st pid) \<le> now \<longrightarrow>
            getCurrentPrice pair_keccak fs now st base quote =
              (if lastValidPrice (tokenPairs st pid) > 0 \<and>
                  now - lastUpdateTime (tokenPairs st pid) \<le> maxPriceAge st
               then Inr (lastValidPrice (tokenPairs st pid), True) else Inr (q4, False)))"
proof -
  have c1: "getPriceFromFeed fs now feed = Inr (p0, True) \<longrightarrow>
            isActive feed \<and>
            (\<exists>rd. latestRoundData fs (oracle_address feed) = Some rd \<and> rawPrice rd > 0 \<and>
               updatedAt rd \<noteq> 0 \<and> now - updatedAt rd \<le> heartbeat feed)"
    using getPriceFromFeed_valid[of fs now feed p0] by blast
  have c4: "getPriceFromFeed fs now (primaryFeed (tokenPairs st pid)) = Inr (0, False)"
    if "latestRoundData fs (oracle_address (primaryFeed (tokenPairs st pid))) = Some rd3"
      "updatedAt rd3 \<le> now" "heartbeat (primaryFeed (tokenPairs st pid)) < now - updatedAt rd3"
    using that by (rule getPriceFromFeed_stale)
  have rest: "(getPriceFromFeed fs now (primaryFeed (tokenPairs st pid)) = Inr (p1, True) \<longrightarrow>
            getCurrentPrice pair_keccak fs now st base quote = Inr (p1, True)) \<and>
         (getPriceFromFeed fs now (primaryFeed (tokenPairs st pid)) = Inr (p2, False) \<and>
            isActive (secondaryFeed (tokenPairs st pid)) \<and>
            getPriceFromFeed fs now (secondaryFeed (tokenPairs st pid)) = Inr (q2, True) \<longrightarrow>
            getCurrentPrice pair_keccak fs now st base quote = Inr (q2, True)) \<and>
         (getPriceFromFeed fs now (primaryFeed (tokenPairs st pid)) = Inr (0, False) \<and>
            isActive (secondaryFeed (tokenPairs st pid)) \<and>
            getPriceFromFeed fs now (secondaryFeed (tokenPairs st pid)) = Inr (q3, True) \<longrightarrow>
            getCurrentPrice pair_keccak fs now st base quote = Inr (q3, True)) \<and>
         (getPriceFromFeed fs now (primaryFeed (tokenPairs st pid)) = Inr (p4, False) \<and>
            (if isActive (secondaryFeed (tokenPairs st pid))
             then getPriceFromFeed fs now (secondaryFeed (tokenPairs st pid)) = Inr (q4, False)
             else q4 = p4) \<and>
            lastUpdateTime (tokenPairs st pid) \<le> now \<longrightarrow>
            getCurrentPrice pair_keccak fs now st base quote =
              (if lastValidPrice (tokenPairs st pid) > 0 \<and>
                  now - lastUpdateTime (tokenPairs st pid) \<le> maxPriceAge st
               then Inr (lastValidPrice (tokenPairs st pid), True) else Inr (q4, False)))"
    using assms
    by (auto simp: getCurrentPrice_def getCurrentPriceInternal_def Let_def checked_sub_def)
  from c1 c4 rest show ?thesis by blast
qed

text \<open>
  Witness for C5, at time 10000 with a heartbeat of 3600 and a maximal cache age of 900:
  a fresh primary reading; a stale primary (updated at 5000) with a fresh secondary; both
  feeds failing with a cache written at 9500; both failing with a cache written at 9000.
\<close>

theorem getCurrentPrice_failover_witness:
  "getCurrentPrice toy_pair_keccak (two_feeds (Some (reading (2000 * 10 ^ 8) 9000)) 8 None)
     10000 oracle0 WETH USDC = Inr (2000 * 10 ^ 18, True) \<and>
   getCurrentPrice toy_pair_keccak
     (two_feeds (Some (reading (2000 * 10 ^ 8) 5000)) 8 (Some (reading (2001 * 10 ^ 8) 9500)))
     10000 oracle0 WETH USDC = Inr (2001 * 10 ^ 18, True) \<and>
   getCurrentPrice toy_pair_keccak (two_feeds (Some (reading (2000 * 10 ^ 8) 5000)) 8 None)
     10000 (oracle_cached 9500) WETH USDC = Inr (1999 * 10 ^ 18, True) \<and>
   getCurrentPrice toy_pair_keccak (two_feeds (Some (reading (2000 * 10 ^ 8) 5000)) 8 None)
     10000 (oracle_cached 9000) WETH USDC = Inr (0, False)"
proof -
  note evals = oracle_scenario_defs getPriceFromFeed_def normalize_price_def checked_sub_def
      checked_pow_def checked_div_def checked_mul_def MAX_UINT256_def PRICE_PRECISION_def
  have fresh: "getCurrentPrice toy_pair_keccak
      (two_feeds (Some (reading (2000 * 10 ^ 8) 9000)) 8 None) 10000 oracle0 WETH USDC =
      Inr (2000 * 10 ^ 18, True)"
    using getCurrentPrice_failover[of oracle0 1 toy_pair_keccak WETH USDC
      "two_feeds (Some (reading (2000 * 10 ^ 8) 9000)) 8 None" 10000 "primaryFeed weth_usdc"
      "2000 * 10 ^ 18" "2000 * 10 ^ 18" 0 0 "reading (2000 * 10 ^ 8) 9000" 0 0 0]
    by (simp add: evals)
  have stale: "getCurrentPrice toy_pair_keccak
      (two_feeds (Some (reading (2000 * 10 ^ 8) 5000)) 8 (Some (reading (2001 * 10 ^ 8) 9500)))
      10000 oracle0 WETH USDC = Inr (2001 * 10 ^ 18, True)"
    using getCurrentPrice_failover[of oracle0 1 toy_pair_keccak WETH USDC
      "two_feeds (Some (reading (2000 * 10 ^ 8) 5000)) 8 (Some (reading (2001 * 10 ^ 8) 9500))"
      10000 "primaryFeed weth_usdc" 0 0 0 "2001 * 10 ^ 18" "reading (2000 * 10 ^ 8) 5000"
      "2001 * 10 ^ 18" 0 0]
    by (simp add: evals)
  have cache: "getCurrentPrice toy_pair_keccak
      (two_feeds (Some (reading (2000 * 10 ^ 8) 5000)) 8 None) 10000 (oracle_cached 9500)
      WETH USDC = Inr (1999 * 10 ^ 18, True)"
    using getCurrentPrice_failover[of "oracle_cached 9500" 1 toy_pair_keccak WETH USDC
      "two_feeds (Some (reading (2000 * 10 ^ 8) 5000)) 8 None" 10000 "primaryFeed weth_usdc"
      0 0 0 0 "reading (2000 * 10 ^ 8) 5000" 0 0 0]
    by (simp add: evals)
  have exhausted: "getCurrentPrice toy_pair_keccak
      (two_feeds (Some (reading (2000 * 10 ^ 8) 5000)) 8 None) 10000 (oracle_cached 9000)
      WETH USDC = Inr (0, False)"
    using getCurrentPrice_failover[of "oracle_cached 9000" 1 toy_pair_keccak WETH USDC
      "two_feeds (Some (reading (2000 * 10 ^ 8) 5000)) 8 None" 10000 "primaryFeed weth_usdc"
      0 0 0 0 "reading (2000 * 10 ^ 8) 5000" 0 0 0]
    by (simp add: evals)
  from fresh stale cache exhausted show ?thesis by blast
qed

subsection \<open>The oracle: validating an order price\<close>

lemma getCurrentPriceInternal_global:
  "getCurrentPriceInternal fs now (st\<lparr>oracle_globalTolerancePercent := g\<rparr>) pid =
   getCurrentPriceInternal fs now st pid"
  by (simp add: getCurrentPriceInternal_def Let_def case_prod_unfold cong: if_cong)

lemma validateOrderPrice_ignores_global:
  "validateOrderPrice k fs now (st\<lparr>oracle_globalTolerancePercent := g\<rparr>) b q p c =
   validateOrderPrice k fs now st b q p c"
  by (simp add: validateOrderPrice_def getCurrentPriceInternal_global getDefaultTolerance_def)

lemma validateOrderPrice_unavailable:
  assumes "0 < p" and "getCurrentPriceInternal fs now st (k b q) = Inr (m, False)"
  shows "validateOrderPrice k fs now st b q p c = Inl (Revert ''Market price unavailable'')"
  using assms by (simp add: validateOrderPrice_def)

lemma validateOrderPrice_result:
  assumes "0 < p" and "getCurrentPriceInternal fs now st (k b q) = Inr (m, True)" and "0 < m"
    and "tol = (if c > 0 then c else if tokenTolerances st b > 0 then tokenTolerances st b
                else MAJOR_TOLERANCE)"
    and "tol \<le> MAX_DEVIATION"
    and "m * (BASIS_POINTS + tol) \<le> MAX_UINT256"
    and "(if p > m then p - m else m - p) * BASIS_POINTS \<le> MAX_UINT256"
  shows "validateOrderPrice k fs now st b q p c =
           Inr \<lparr>withinTolerance =
                  (m * (BASIS_POINTS - tol) div BASIS_POINTS \<le> p \<and>
                   p \<le> m * (BASIS_POINTS + tol) div BASIS_POINTS),
                orderPrice = p, marketPrice = m,
                deviation = (if p > m then p - m else m - p) * BASIS_POINTS div m,
                validationResult =
                  (if m * (BASIS_POINTS - tol) div BASIS_POINTS \<le> p \<and>
                      p \<le> m * (BASIS_POINTS + tol) div BASIS_POINTS
                   then ''WITHIN_TOLERANCE'' else ''OUTSIDE_TOLERANCE'')\<rparr>"
proof -
  have t: "(if c > 0 then c else getDefaultTolerance st b) = tol"
    using assms(4) by (simp add: getDefaultTolerance_def)
  have "m * (BASIS_POINTS - tol) \<le> m * (BASIS_POINTS + tol)"
    by (rule mult_le_mono2) arith
  then have low: "m * (BASIS_POINTS - tol) \<le> MAX_UINT256"
    using assms(6) by linarith
  have sub: "tol \<le> BASIS_POINTS"
    using assms(5) by (simp add: MAX_DEVIATION_def BASIS_POINTS_def)
  have add: "BASIS_POINTS + tol \<le> MAX_UINT256"
    using assms(5) by (simp add: MAX_DEVIATION_def BASIS_POINTS_def MAX_UINT256_def)
  have bp: "BASIS_POINTS \<noteq> 0" by (simp add: BASIS_POINTS_def)
  show ?thesis
  proof (cases "m < p")
    case True
    with assms(1-3,5-7) low sub add bp show ?thesis
      by (simp add: validateOrderPrice_def t Let_def checked_sub_def checked_mul_def
          checked_add_def checked_div_def)
  next
    case False
    with assms(1-3,5-7) low sub add bp show ?thesis
      by (simp add: validateOrderPrice_def t Let_def checked_sub_def checked_mul_def
          checked_add_def checked_div_def)
  qed
qed

subsection \<open>The oracle: batch validation\<close>

lemma validate_loop_all:
  assumes "length qs = length bs" and "length ps = length bs" and "length cs = length bs"
    and "length vs = length bs"
    and "\<forall>i<length bs. validateOrderPrice k fs now st (bs ! i) (qs ! i) (ps ! i) (cs ! i) = Inr (vs ! i)"
  shows "validate_loop k fs now st bs qs ps cs = Inr vs"
  using assms
proof (induction bs arbitrary: qs ps cs vs)
  case Nil
  then show ?case by simp
next
  case (Cons b bs)
  from Cons.prems(1-4) obtain q qs' p ps' c cs' v vs'
    where eqs: "qs = q # qs'" "ps = p # ps'" "cs = c # cs'" "vs = v # vs'"
    by (metis length_Suc_conv)
  from Cons.prems(5) eqs have hd: "validateOrderPrice k fs now st b q p c = Inr v"
    by fastforce
  have tl: "\<forall>i<length bs. validateOrderPrice k fs now st (bs ! i) (qs' ! i) (ps' ! i) (cs' ! i) = Inr (vs' ! i)"
  proof (intro allI impI)
    fix i assume "i < length bs"
    then have "Suc i < length (b # bs)" by simp
    from Cons.prems(5)[rule_format, OF this] eqs show
      "validateOrderPrice k fs now st (bs ! i) (qs' ! i) (ps' ! i) (cs' ! i) = Inr (vs' ! i)"
      by simp
  qed
  from Cons.prems(1-4) eqs have "length qs' = length bs" "length ps' = length bs"
    "length cs' = length bs" "length vs' = length bs" by simp_all
  from Cons.IH[OF this tl] hd eqs show ?case by simp
qed

lemma validate_loop_fail:
  assumes "length qs = length bs" and "length ps = length bs" and "length cs = length bs"
    and "j < length bs"
    and "validateOrderPrice k fs now st (bs ! j) (qs ! j) (ps ! j) (cs ! j) = Inl e"
    and "\<forall>i<j. \<exists>v. validateOrderPrice k fs now st (bs ! i) (qs ! i) (ps ! i) (cs ! i) = Inr v"
  shows "validate_loop k fs now st bs qs ps cs = Inl e"
  using assms
proof (induction bs arbitrary: qs ps cs j)
  case Nil
  then show ?case by simp
next
  case (Cons b bs)
  from Cons.prems(1-3) obtain q qs' p ps' c cs'
    where eqs: "qs = q # qs'" "ps = p # ps'" "cs = c # cs'"
    by (metis length_Suc_conv)
  show ?case
  proof (cases j)
    case 0
    with Cons.prems(5) eqs show ?thesis by simp
  next
    case (Suc j')
    from Cons.prems(6) Suc obtain v where hd: "validateOrderPrice k fs now st b q p c = Inr v"
      using eqs by fastforce
    have tl: "\<forall>i<j'. \<exists>v. validateOrderPrice k fs now st (bs ! i) (qs' ! i) (ps' ! i) (cs' ! i) = Inr v"
    proof (intro allI impI)
      fix i assume "i < j'"
      then have "Suc i < j" using Suc by simp
      from Cons.prems(6)[rule_format, OF this] eqs show
        "\<exists>v. validateOrderPrice k fs now st (bs ! i) (qs' ! i) (ps' ! i) (cs' ! i) = Inr v"
        by simp
    qed
    from Cons.prems(1-5) eqs Suc have "length qs' = length bs" "length ps' = length bs"
      "length cs' = length bs" "j' < length bs"
      "validateOrderPrice k fs now st (bs ! j') (qs' ! j') (ps' ! j') (cs' ! j') = Inl e"
      by simp_all
    from Cons.IH[OF this tl] hd eqs show ?thesis by simp
  qed
qed

text \<open>
  C4, amended. With arrays of equal length: a batch of more than 20 entries is refused;
  a batch of at most 20 entries whose every validation returns (inside or outside the
  tolerance) returns these results in order; and when the validation of entry \<open>j\<close>
  reverts, the entries before it having returned, the whole batch reverts with that error
  and returns no result.
\<close>

theorem batchValidateOrderPrices_all_or_nothing:
  assumes "length qs = length bs" and "length ps = length bs" and "length cs = length bs"
  shows "(20 < length bs \<longrightarrow>
            batchValidateOrderPrices k fs now st bs qs ps cs = Inl (Revert ''Too many orders'')) \<and>
         (length bs \<le> 20 \<and> length vs = length bs \<and>
            (\<forall>i<length bs. validateOrderPrice k fs now st (bs ! i) (qs ! i) (ps ! i) (cs ! i) =
                 Inr (vs ! i)) \<longrightarrow>
            batchValidateOrderPrices k fs now st bs qs ps cs = Inr vs) \<and>
         (length bs \<le> 20 \<and> j < length bs \<and>
            validateOrderPrice k fs now st (bs ! j) (qs ! j) (ps ! j) (cs ! j) = Inl e \<and>
            (\<forall>i<j. \<exists>v. validateOrderPrice k fs now st (bs ! i) (qs ! i) (ps ! i) (cs ! i) = Inr v) \<longrightarrow>
            batchValidateOrderPrices k fs now st bs qs ps cs = Inl e)"
  using assms validate_loop_all[of qs bs ps cs vs k fs now st]
    validate_loop_fail[of qs bs ps cs j k fs now st e]
  by (simp add: batchValidateOrderPrices_def)

text \<open>
  C4, as stated, fails: an entry whose validation reverts aborts the batch. The order
  price \<open>2160 * 10^18\<close> validates on its own against the market price \<open>2000 * 10^18\<close>;
  in a batch of two with a second entry whose tolerance of 3000 basis points exceeds
  \<^verbatim>\<open>MAX_DEVIATION\<close>, the batch reverts with "Tolerance too high" and returns nothing,
  whether the failing entry comes first or last.
\<close>

theorem batchValidateOrderPrices_counterexample:
  "validateOrderPrice toy_pair_keccak (two_feeds (Some (reading (2000 * 10 ^ 8) 9000)) 8 None)
     10000 oracle0 WETH USDC (2160 * 10 ^ 18) 0 =
     Inr \<lparr>withinTolerance = True, orderPrice = 2160 * 10 ^ 18, marketPrice = 2000 * 10 ^ 18,
          deviation = 800, validationResult = ''WITHIN_TOLERANCE''\<rparr> \<and>
   batchValidateOrderPrices toy_pair_keccak
     (two_feeds (Some (reading (2000 * 10 ^ 8) 9000)) 8 None) 10000 oracle0
     [WETH, WETH] [USDC, USDC] [2160 * 10 ^ 18, 2160 * 10 ^ 18] [3000, 0] =
     Inl (Revert ''Tolerance too high'') \<and>
   batchValidateOrderPrices toy_pair_keccak
     (two_feeds (Some (reading (2000 * 10 ^ 8) 9000)) 8 None) 10000 oracle0
     [WETH, WETH] [USDC, USDC] [2160 * 10 ^ 18, 2160 * 10 ^ 18] [0, 3000] =
     Inl (Revert ''Tolerance too high'')"
  by (simp add: oracle_call_defs oracle_scenario_defs)

text \<open>
  Witness for C4: a batch of two whose second entry is outside its tolerance of 500 basis
  points returns both results; the batch whose second entry asks for 3000 basis points
  reverts.
\<close>

theorem batchValidateOrderPrices_all_or_nothing_witness:
  "batchValidateOrderPrices toy_pair_keccak
     (two_feeds (Some (reading (2000 * 10 ^ 8) 9000)) 8 None) 10000 oracle0
     [WETH, WETH] [USDC, USDC] [2160 * 10 ^ 18, 2160 * 10 ^ 18] [0, 500] =
     Inr [\<lparr>withinTolerance = True, orderPrice = 2160 * 10 ^ 18, marketPrice = 2000 * 10 ^ 18,
            deviation = 800, validationResult = ''WITHIN_TOLERANCE''\<rparr>,
          \<lparr>withinTolerance = False, orderPrice = 2160 * 10 ^ 18, marketPrice = 2000 * 10 ^ 18,
            deviation = 800, validationResult = ''OUTSIDE_TOLERANCE''\<rparr>] \<and>
   batchValidateOrderPrices toy_pair_keccak
     (two_feeds (Some (reading (2000 * 10 ^ 8) 9000)) 8 None) 10000 oracle0
     [WETH, WETH] [USDC, USDC] [2160 * 10 ^ 18, 2160 * 10 ^ 18] [0, 3000] =
     Inl (Revert ''Tolerance too high'')"
proof -
  note evals = oracle_scenario_defs getPriceFromFeed_def normalize_price_def
    getCurrentPriceInternal_def getDefaultTolerance_def validateOrderPrice_def checked_add_def
    checked_sub_def checked_mul_def checked_div_def checked_pow_def MAX_UINT256_def
    PRICE_PRECISION_def BASIS_POINTS_def MAX_DEVIATION_def MAJOR_TOLERANCE_def Let_def
    All_less_Suc
  have results: "batchValidateOrderPrices toy_pair_keccak
     (two_feeds (Some (reading (2000 * 10 ^ 8) 9000)) 8 None) 10000 oracle0
     [WETH, WETH] [USDC, USDC] [2160 * 10 ^ 18, 2160 * 10 ^ 18] [0, 500] =
     Inr [\<lparr>withinTolerance = True, orderPrice = 2160 * 10 ^ 18, marketPrice = 2000 * 10 ^ 18,
            deviation = 800, validationResult = ''WITHIN_TOLERANCE''\<rparr>,
          \<lparr>withinTolerance = False, orderPrice = 2160 * 10 ^ 18, marketPrice = 2000 * 10 ^ 18,
            deviation = 800, validationResult = ''OUTSIDE_TOLERANCE''\<rparr>]"
    using batchValidateOrderPrices_all_or_nothing[of "[USDC, USDC]" "[WETH, WETH]"
        "[2160 * 10 ^ 18, 2160 * 10 ^ 18]" "[0, 500]" toy_pair_keccak
        "two_feeds (Some (reading (2000 * 10 ^ 8) 9000)) 8 None" 10000 oracle0
        "[\<lparr>withinTolerance = True, orderPrice = 2160 * 10 ^ 18, marketPrice = 2000 * 10 ^ 18,
            deviation = 800, validationResult = ''WITHIN_TOLERANCE''\<rparr>,
          \<lparr>withinTolerance = False, orderPrice = 2160 * 10 ^ 18, marketPrice = 2000 * 10 ^ 18,
            deviation = 800, validationResult = ''OUTSIDE_TOLERANCE''\<rparr>]" 0 Panic]
    by (simp add: evals)
  have aborted: "batchValidateOrderPrices toy_pair_keccak
     (two_feeds (Some (reading (2000 * 10 ^ 8) 9000)) 8 None) 10000 oracle0
     [WETH, WETH] [USDC, USDC] [2160 * 10 ^ 18, 2160 * 10 ^ 18] [0, 3000] =
     Inl (Revert ''Tolerance too high'')"
    using batchValidateOrderPrices_all_or_nothing[of "[USDC, USDC]" "[WETH, WETH]"
        "[2160 * 10 ^ 18, 2160 * 10 ^ 18]" "[0, 3000]" toy_pair_keccak
        "two_feeds (Some (reading (2000 * 10 ^ 8) 9000)) 8 None" 10000 oracle0
        "[]" 1 "Revert ''Tolerance too high''"]
    by (simp add: evals)
  from results aborted show ?thesis by blast
qed

subsection \<open>The oracle: the default tolerance\<close>

text \<open>
  C6. The claim fails on the last step of the precedence. After the owner has set the
  global tolerance to 500 basis points (\<^verbatim>\<open>getToleranceForToken\<close> reports 500 for WETH,
  which has no override), \<^verbatim>\<open>validateOrderPrice\<close> with no call-supplied tolerance still
  uses the constant \<^verbatim>\<open>MAJOR_TOLERANCE\<close> of 1000: an order price 8 percent above the
  market is reported within tolerance. Lemma \<open>validateOrderPrice_ignores_global\<close> states
  it in general, \<open>validateOrderPrice_result\<close> gives the bounds, the deviation and the
  returned record, \<open>validateOrderPrice_unavailable\<close> the failure without a valid price.
\<close>

theorem validateOrderPrice_ignores_global_tolerance:
  "\<exists>st. setGlobalTolerance ADMIN 500 oracle0 = Inr st \<and>
     oracle_globalTolerancePercent st = 500 \<and> getToleranceForToken st WETH = 500 \<and>
     validateOrderPrice toy_pair_keccak (two_feeds (Some (reading (2000 * 10 ^ 8) 9000)) 8 None)
       10000 st WETH USDC (2160 * 10 ^ 18) 0 =
     Inr \<lparr>withinTolerance = True, orderPrice = 2160 * 10 ^ 18, marketPrice = 2000 * 10 ^ 18,
          deviation = 800, validationResult = ''WITHIN_TOLERANCE''\<rparr>"
  by (simp add: oracle_call_defs oracle_scenario_defs)

subsection \<open>Ranking\<close>

text \<open>
  One run of the inner loop on arrays whose first \<open>i\<close> slots hold a list and its
  priorities: the first \<open>i + 1\<close> slots then hold the list with \<open>h\<close> inserted behind
  the last entry whose priority is not smaller, and the slots above \<open>i\<close> are untouched.
\<close>

lemma shift_down_spec:
  assumes "i < length so" and "length pr = length so"
    and "take i pr = map f (take i so)"
  shows "\<exists>j so' pr'. shift_down (f h) i (so, pr) = (j, so', pr') \<and> j \<le> i \<and>
           length so' = length so \<and> length pr' = length pr \<and>
           take (Suc i) (so'[j := h]) = rev (insort_key f h (rev (take i so))) \<and>
           take (Suc i) (pr'[j := f h]) = map f (rev (insort_key f h (rev (take i so)))) \<and>
           (\<forall>k>i. so' ! k = so ! k \<and> pr' ! k = pr ! k)"
  using assms
proof (induction i arbitrary: so pr)
  case 0
  then show ?case by (cases so; cases pr) simp_all
next
  case (Suc j)
  have j_lt: "j < length so" "j < length pr" "Suc j < length pr"
    using Suc.prems by simp_all
  have prefix: "take j pr = map f (take j so)"
    using Suc.prems(3) j_lt
    by (simp add: take_Suc_conv_app_nth)
  have at_j: "pr ! j = f (so ! j)"
    using Suc.prems(3) j_lt
    by (simp add: take_Suc_conv_app_nth)
  have split_so: "take (Suc j) so = take j so @ [so ! j]"
    using j_lt by (simp add: take_Suc_conv_app_nth)
  show ?case
  proof (cases "pr ! j < f h")
    case True
    let ?so1 = "so[Suc j := so ! j]" and ?pr1 = "pr[Suc j := pr ! j]"
    have "j < length ?so1" "length ?pr1 = length ?so1" "take j ?pr1 = map f (take j ?so1)"
      using j_lt Suc.prems(2) prefix by simp_all
    from Suc.IH[OF this] obtain j' so' pr' where
      res: "shift_down (f h) j (?so1, ?pr1) = (j', so', pr')" and le: "j' \<le> j"
      and len: "length so' = length ?so1" "length pr' = length ?pr1"
      and so_eq: "take (Suc j) (so'[j' := h]) = rev (insort_key f h (rev (take j ?so1)))"
      and pr_eq: "take (Suc j) (pr'[j' := f h]) = map f (rev (insort_key f h (rev (take j ?so1))))"
      and rest: "\<forall>k>j. so' ! k = ?so1 ! k \<and> pr' ! k = ?pr1 ! k"
      by blast
    have top: "so' ! Suc j = so ! j" "pr' ! Suc j = pr ! j"
      using rest Suc.prems(1) j_lt by simp_all
    have so_goal: "take (Suc (Suc j)) (so'[j' := h]) =
        rev (insort_key f h (rev (take (Suc j) so)))"
    proof -
      have "take (Suc (Suc j)) (so'[j' := h]) = take (Suc j) (so'[j' := h]) @ [so'[j' := h] ! Suc j]"
        using len Suc.prems(1) by (simp add: take_Suc_conv_app_nth)
      also have "so'[j' := h] ! Suc j = so ! j"
        using le top by simp
      finally show ?thesis
        using so_eq True at_j split_so by simp
    qed
    have pr_goal: "take (Suc (Suc j)) (pr'[j' := f h]) =
        map f (rev (insort_key f h (rev (take (Suc j) so))))"
    proof -
      have "take (Suc (Suc j)) (pr'[j' := f h]) =
          take (Suc j) (pr'[j' := f h]) @ [pr'[j' := f h] ! Suc j]"
        using len j_lt by (simp add: take_Suc_conv_app_nth)
      also have "pr'[j' := f h] ! Suc j = pr ! j"
        using le top by simp
      finally show ?thesis
        using pr_eq True at_j split_so by simp
    qed
    have "\<forall>k>Suc j. so' ! k = so ! k \<and> pr' ! k = pr ! k"
      using rest by simp
    with res le len so_goal pr_goal True show ?thesis by simp
  next
    case False
    have "take (Suc (Suc j)) (so[Suc j := h]) = rev (insort_key f h (rev (take (Suc j) so)))"
      using False at_j split_so Suc.prems(1)
      by (simp add: take_Suc_conv_app_nth[of "Suc j"])
    moreover have "take (Suc (Suc j)) (pr[Suc j := f h]) =
        map f (rev (insort_key f h (rev (take (Suc j) so))))"
      using False at_j split_so j_lt Suc.prems(3)
      by (simp add: take_Suc_conv_app_nth[of "Suc j"])
    ultimately show ?thesis using False by simp
  qed
qed

lemma fold_insert_order:
  assumes "n \<le> limit" and "limit \<le> length (activeOrderHashes s)"
  shows "\<exists>so pr. fold (insert_order s) [0..<n] (replicate limit 0, replicate limit 0) = (so, pr) \<and>
           length so = limit \<and> length pr = limit \<and>
           take n so = by_priority s (take n (activeOrderHashes s)) \<and>
           take n pr = map (priority_of s) (take n so)"
  using assms
proof (induction n)
  case 0
  then show ?case by (simp add: by_priority_def)
next
  case (Suc n)
  then obtain so pr where
    acc: "fold (insert_order s) [0..<n] (replicate limit 0, replicate limit 0) = (so, pr)"
    and len: "length so = limit" "length pr = limit"
    and so_eq: "take n so = by_priority s (take n (activeOrderHashes s))"
    and pr_eq: "take n pr = map (priority_of s) (take n so)"
    by auto
  let ?h = "activeOrderHashes s ! n"
  have "n < length so" "length pr = length so"
    using len Suc.prems by simp_all
  from shift_down_spec[OF this pr_eq, of ?h] obtain j so' pr' where
    res: "shift_down (priority_of s ?h) n (so, pr) = (j, so', pr')"
    and len': "length so' = length so" "length pr' = length pr"
    and so': "take (Suc n) (so'[j := ?h]) =
        rev (insort_key (priority_of s) ?h (rev (take n so)))"
    and pr': "take (Suc n) (pr'[j := priority_of s ?h]) =
        map (priority_of s) (rev (insort_key (priority_of s) ?h (rev (take n so))))"
    by blast
  have step: "fold (insert_order s) [0..<Suc n] (replicate limit 0, replicate limit 0) =
      (so'[j := ?h], pr'[j := priority_of s ?h])"
    using acc res by (simp add: insert_order_def priority_of_def Let_def)
  have "n < length (activeOrderHashes s)"
    using Suc.prems by simp
  then have "take (Suc n) (activeOrderHashes s) = take n (activeOrderHashes s) @ [?h]"
    by (simp add: take_Suc_conv_app_nth)
  then have "by_priority s (take (Suc n) (activeOrderHashes s)) =
      rev (insort_key (priority_of s) ?h (rev (take n so)))"
    using so_eq by (simp add: by_priority_def)
  with step len len' so' pr' show ?case by simp
qed

lemma getOrdersByPriority_eq:
  assumes "limit \<le> length (activeOrderHashes s)"
  shows "getOrdersByPriority s limit = Inr (by_priority s (take limit (activeOrderHashes s)))"
proof -
  from fold_insert_order[OF le_refl assms] obtain so pr where
    "fold (insert_order s) [0..<limit] (replicate limit 0, replicate limit 0) = (so, pr)"
    "length so = limit" "take limit so = by_priority s (take limit (activeOrderHashes s))"
    by blast
  then show ?thesis
    using assms by (simp add: getOrdersByPriority_def)
qed

lemma by_priority_sorted: "sorted_wrt (\<lambda>a b. priority_of s b \<le> priority_of s a) (by_priority s hs)"
proof -
  have "sorted (map (priority_of s) (sort_key (priority_of s) (rev hs)))"
    by (rule sorted_sort_key)
  then have "sorted_wrt (\<lambda>a b. priority_of s a \<le> priority_of s b) (sort_key (priority_of s) (rev hs))"
    by (simp add: sorted_map)
  then show ?thesis
    by (simp add: by_priority_def sorted_wrt_rev)
qed

lemma by_priority_stable:
  "filter (\<lambda>h. priority_of s h = q) (by_priority s hs) = filter (\<lambda>h. priority_of s h = q) hs"
proof -
  have "filter (\<lambda>h. priority_of s h = q) (by_priority s hs) =
      rev (filter (\<lambda>h. priority_of s h = q) (sort_key (priority_of s) (rev hs)))"
    by (simp add: by_priority_def rev_filter)
  also have "\<dots> = rev (filter (\<lambda>h. priority_of s h = q) (rev hs))"
    by (simp add: sort_key_stable)
  also have "\<dots> = filter (\<lambda>h. priority_of s h = q) hs"
    by (simp add: rev_filter)
  finally show ?thesis .
qed

lemma by_priority_length: "length (by_priority s hs) = length hs"
  by (simp add: by_priority_def)

lemma by_priority_set: "set (by_priority s hs) = set hs"
  by (simp add: by_priority_def)

lemma by_priority_ties_subseq:
  "subseq (filter (\<lambda>h. priority_of s h = q) (by_priority s (take n hs)))
          (filter (\<lambda>h. priority_of s h = q) hs)"
proof -
  have "subseq (take n hs) hs"
    using take_is_prefix by (rule prefix_imp_subseq)
  then have "subseq (filter (\<lambda>h. priority_of s h = q) (take n hs))
                    (filter (\<lambda>h. priority_of s h = q) hs)"
    by (rule subseq_filter)
  then show ?thesis by (simp add: by_priority_stable)
qed

text \<open>
  C7, amended. For a limit of at most the number of active orders,
  \<^verbatim>\<open>getOrdersByPriority\<close> returns exactly \<open>limit\<close> identifiers of the active array, sorted
  by queue position in descending order, entries of equal queue position in the order
  they have in the active array. With the limit equal to the number of active orders the
  result is the stable descending sort of the whole active array. For a larger limit the
  call reverts with "Limit too high".
\<close>

theorem getOrdersByPriority_stable_sort:
  "(limit \<le> length (activeOrderHashes s) \<longrightarrow>
      (\<exists>res. getOrdersByPriority s limit = Inr res \<and>
         length res = limit \<and>
         set res \<subseteq> set (activeOrderHashes s) \<and>
         sorted_wrt (\<lambda>a b. queuePosition (orders s b) \<le> queuePosition (orders s a)) res \<and>
         (\<forall>q. subseq (filter (\<lambda>h. queuePosition (orders s h) = q) res)
                     (filter (\<lambda>h. queuePosition (orders s h) = q) (activeOrderHashes s))))) \<and>
   (limit = length (activeOrderHashes s) \<longrightarrow>
      getOrdersByPriority s limit = Inr (by_priority s (activeOrderHashes s)) \<and>
      set (by_priority s (activeOrderHashes s)) = set (activeOrderHashes s) \<and>
      (\<forall>q. filter (\<lambda>h. queuePosition (orders s h) = q) (by_priority s (activeOrderHashes s)) =
           filter (\<lambda>h. queuePosition (orders s h) = q) (activeOrderHashes s))) \<and>
   (length (activeOrderHashes s) < limit \<longrightarrow>
      getOrdersByPriority s limit = Inl (Revert ''Limit too high''))"
proof -
  have high: "getOrdersByPriority s limit = Inl (Revert ''Limit too high'')"
    if "length (activeOrderHashes s) < limit"
    using that by (simp add: getOrdersByPriority_def)
  have low: "\<exists>res. getOrdersByPriority s limit = Inr res \<and>
         length res = limit \<and>
         set res \<subseteq> set (activeOrderHashes s) \<and>
         sorted_wrt (\<lambda>a b. queuePosition (orders s b) \<le> queuePosition (orders s a)) res \<and>
         (\<forall>q. subseq (filter (\<lambda>h. queuePosition (orders s h) = q) res)
                     (filter (\<lambda>h. queuePosition (orders s h) = q) (activeOrderHashes s)))"
    if "limit \<le> length (activeOrderHashes s)"
    using getOrdersByPriority_eq[OF that] that
      by_priority_sorted[of s "take limit (activeOrderHashes s)"]
      by_priority_ties_subseq[of s _ limit "activeOrderHashes s"]
      set_take_subset[of limit "activeOrderHashes s"]
    by (simp add: by_priority_length by_priority_set priority_of_def)
  have full: "getOrdersByPriority s limit = Inr (by_priority s (activeOrderHashes s)) \<and>
      set (by_priority s (activeOrderHashes s)) = set (activeOrderHashes s) \<and>
      (\<forall>q. filter (\<lambda>h. queuePosition (orders s h) = q) (by_priority s (activeOrderHashes s)) =
           filter (\<lambda>h. queuePosition (orders s h) = q) (activeOrderHashes s))"
    if "limit = length (activeOrderHashes s)"
    using getOrdersByPriority_eq[of limit s] that
      by_priority_stable[of s _ "activeOrderHashes s"]
    by (simp add: by_priority_set priority_of_def)
  from high low full show ?thesis by blast
qed

text \<open>
  The active array is in creation order only until an order leaves it:
  \<^verbatim>\<open>_removeFromActiveOrders\<close> moves the last entry into the freed slot.
\<close>

lemma tie_listed_active: "activeOrderHashes tie_listed = [1000, 1001, 1002]"
  by (simp add: tie_listed_def after_create_def call_defs scenario_defs)

lemma tie_after_cancel_facts:
  "activeOrderHashes tie_after_cancel = [1002, 1001]"
  "queuePosition (orders tie_after_cancel 1001) = 5001"
  "queuePosition (orders tie_after_cancel 1002) = 5001"
  "timestamp (orders tie_after_cancel 1001) = 1010"
  "timestamp (orders tie_after_cancel 1002) = 1020"
  by (simp_all add: tie_after_cancel_def after_cancel_def tie_listed_def after_create_def
      call_defs scenario_defs)

text \<open>
  C7, as stated, fails. Orders 1000, 1001 and 1002 are created in this order with the same
  queue position 5001; after order 1000 is cancelled the active array is \<open>[1002, 1001]\<close>,
  and the ranking of the two active orders puts 1002 (created at 1020) before 1001
  (created at 1010). And a limit above the number of active orders returns nothing: the
  call reverts.
\<close>

theorem getOrdersByPriority_counterexample:
  "activeOrderHashes tie_listed = [1000, 1001, 1002] \<and>
   activeOrderHashes tie_after_cancel = [1002, 1001] \<and>
   queuePosition (orders tie_after_cancel 1001) = 5001 \<and>
   queuePosition (orders tie_after_cancel 1002) = 5001 \<and>
   timestamp (orders tie_after_cancel 1001) = 1010 \<and>
   timestamp (orders tie_after_cancel 1002) = 1020 \<and>
   getOrdersByPriority tie_after_cancel 2 = Inr [1002, 1001] \<and>
   getOrdersByPriority tie_after_cancel 3 = Inl (Revert ''Limit too high'')"
  by (simp add: tie_listed_active tie_after_cancel_facts getOrdersByPriority_def
      insert_order_def numeral_2_eq_2)

text \<open>
  Witness for C7: with Alice's order (queue position 5001) listed before Carol's (5002),
  a limit of 2 ranks Carol's first and a limit of 3 reverts; the two tied orders come out
  in the order of the array.
\<close>

theorem getOrdersByPriority_stable_sort_witness:
  "getOrdersByPriority both_listed 2 = Inr [2000, 1000] \<and>
   getOrdersByPriority tie_after_cancel 2 = Inr [1002, 1001] \<and>
   getOrdersByPriority both_listed 3 = Inl (Revert ''Limit too high'')"
proof -
  have both: "activeOrderHashes both_listed = [1000, 2000]"
    "queuePosition (orders both_listed 1000) = 5001"
    "queuePosition (orders both_listed 2000) = 5002"
    by (simp_all add: scenario_defs)
  note evals = both tie_after_cancel_facts by_priority_def priority_of_def sort_key_def
  have two: "getOrdersByPriority both_listed 2 = Inr [2000, 1000]"
    using getOrdersByPriority_stable_sort[of 2 both_listed] by (simp add: evals)
  have tie: "getOrdersByPriority tie_after_cancel 2 = Inr [1002, 1001]"
    using getOrdersByPriority_stable_sort[of 2 tie_after_cancel] by (simp add: evals)
  have three: "getOrdersByPriority both_listed 3 = Inl (Revert ''Limit too high'')"
    using getOrdersByPriority_stable_sort[of 3 both_listed] by (simp add: evals)
  from two tie three show ?thesis by blast
qed

text \<open>
  For a limit below the number of active orders the loop ranks the first \<open>limit\<close> slots
  of the array only, so the order of highest queue position can be missing from the
  result, which the function's description ("highest priority first") does not intend.
  The statement above says nothing on which active orders are returned then.
\<close>

lemma getOrdersByPriority_omits_highest:
  "getOrdersByPriority both_listed 1 = Inr [1000] \<and>
   queuePosition (orders both_listed 1000) < queuePosition (orders both_listed 2000)"
proof -
  have both: "activeOrderHashes both_listed = [1000, 2000]"
    "queuePosition (orders both_listed 1000) = 5001"
    "queuePosition (orders both_listed 2000) = 5002"
    by (simp_all add: scenario_defs)
  then show ?thesis
    using getOrdersByPriority_eq[of 1 both_listed]
    by (simp add: by_priority_def priority_of_def sort_key_def)
qed

end
